theory Spec2Isabelle
  imports Main "HOL-Library.AList"
begin

section \<open>Values, errors and the outside world\<close>

text \<open>
  The program is \<^verbatim>\<open>SMStudio-Run-On-Start/lambda/main.py\<close>. Its values are decoded JSON
  (the invocation event, the terminal resource, the frames of the terminal channel):
  Python's \<^verbatim>\<open>None\<close> is \<open>JNull\<close>, a \<^verbatim>\<open>dict\<close> decoded from JSON is an association list
  read with \<open>map_of\<close>. A JSON number that is not an integer behaves like \<open>JNum\<close> on every
  path of this program (it is never subscripted with success, never equal to a
  \<^verbatim>\<open>str\<close>).

  A Python \<^verbatim>\<open>str\<close> is a sequence of Unicode code points, here a list of naturals; \<open>str\<close>
  turns a literal of this text into one, character by character (the literals of the
  source hold ASCII characters only).
\<close>

type_synonym pystr = "nat list"

definition str :: "string \<Rightarrow> pystr" where
  "str s = map of_char s"

datatype json =
    JNull
  | JBool bool
  | JNum int
  | JStr pystr
  | JArr "json list"
  | JObj "(pystr \<times> json) list"

text \<open>
  The four \<^verbatim>\<open>raise ValueError(f"...")\<close> of the source, by message; the f-string
  operands are the constructor arguments.
\<close>

datatype value_error =
    NoDomains
  | MultipleDomains nat
  | MissingUserProfileName
  | UnusableStatus pystr

text \<open>
  Every exception the source can end with: its own \<^verbatim>\<open>ValueError\<close>s, the built-in errors
  of subscripting and decoding, and the errors of the three libraries (\<^verbatim>\<open>boto3\<close>,
  \<^verbatim>\<open>requests\<close>, \<^verbatim>\<open>websocket\<close>), which the outside world decides.
\<close>

datatype error =
    ValueError value_error
  | IndexError
  | KeyError json
  | TypeError
  | JSONDecodeError
  | ClientError
  | RequestException
  | WebSocketException

record domain_details =
  DomainId :: pystr
  DomainName :: pystr

record http_response =
  resp_text :: pystr
  json_body :: "json option"
  set_cookies :: "(pystr \<times> pystr) list"

text \<open>What one \<^verbatim>\<open>ws.recv()\<close> followed by \<^verbatim>\<open>json.loads\<close> meets.\<close>

datatype frame =
    Raises error
  | Malformed
  | Message json

type_synonym cookie_jar = "(pystr \<times> pystr) list"

datatype event =
    EvListDomains
  | EvPresign json json
  | EvSleep nat
  | EvGet pystr
  | EvPost pystr "(pystr \<times> pystr) list"
  | EvWsConnect pystr json cookie_jar
  | EvWsSend json
  | EvWsRecv frame
  | EvWsClose

text \<open>
  The outside world: what each external call will answer, the Unicode database of the
  interpreter (which code points are decimal digits, category Nd: it differs between
  versions of Python), and the calls made so far, in order. The two control-plane calls
  and the channel handshake answer at once (an error or a value). \<^verbatim>\<open>requests\<close> calls, \<^verbatim>\<open>ws.recv()\<close> and \<^verbatim>\<open>ws.send()\<close> have no timeout in
  the source: each takes the next answer of its script, and a call that finds its script
  used up does not return, so the run has no result (\<open>None\<close>). The loops of the source
  have no bound of their own; in the model they recurse on these scripts, one answer a
  round, so a run that never ends is a run whose script ends first.
\<close>

record world =
  list_domains_reply :: "error + domain_details list"
  presigned_reply :: "error + pystr"
  http_script :: "(error + http_response) list"
  ws_connect_reply :: "error option"
  ws_inbound :: "frame list"
  ws_sends :: "error option list"
  unicode_decimal :: "nat \<Rightarrow> bool"
  trace :: "event list"

definition emit :: "event \<Rightarrow> world \<Rightarrow> world" where
  "emit ev w = w\<lparr>trace := trace w @ [ev]\<rparr>"

section \<open>The spec's names for the errors\<close>

text \<open>
  The source raises \<^verbatim>\<open>ValueError\<close> throughout; the specification's taxonomy calls the
  tenant and input failures ConfigurationError and the terminated application
  UnavailableError.
\<close>

fun is_ConfigurationError :: "error \<Rightarrow> bool" where
  "is_ConfigurationError (ValueError NoDomains) = True"
| "is_ConfigurationError (ValueError (MultipleDomains n)) = True"
| "is_ConfigurationError (ValueError MissingUserProfileName) = True"
| "is_ConfigurationError e = False"

fun is_UnavailableError :: "error \<Rightarrow> bool" where
  "is_UnavailableError (ValueError (UnusableStatus s)) = True"
| "is_UnavailableError e = False"

section \<open>Tenant resolution\<close>

text \<open>
  \<^verbatim>\<open>ENV_DOMAIN_ID = os.environ.get("SAGEMAKER_DOMAIN_ID")\<close> is \<open>None\<close> or a string;
  \<^verbatim>\<open>if ENV_DOMAIN_ID:\<close> holds for a non-empty string only.
\<close>

definition truthy :: "pystr option \<Rightarrow> bool" where
  "truthy v = (case v of None \<Rightarrow> False | Some s \<Rightarrow> s \<noteq> [])"

definition list_domains :: "world \<Rightarrow> (error + domain_details list) \<times> world" where
  "list_domains w = (list_domains_reply w, emit EvListDomains w)"

text \<open>Lines 28 to 41. \<^verbatim>\<open>domains[0]\<close> on an empty list raises \<^verbatim>\<open>IndexError\<close>.\<close>

definition get_domain_id :: "pystr option \<Rightarrow> world \<Rightarrow> (error + pystr) \<times> world" where
  "get_domain_id ENV_DOMAIN_ID w =
     (if truthy ENV_DOMAIN_ID then (Inr (the ENV_DOMAIN_ID), w)
      else
        (case list_domains w of
           (Inl e, w1) \<Rightarrow> (Inl e, w1)
         | (Inr domains, w1) \<Rightarrow>
             if length domains < 0 then (Inl (ValueError NoDomains), w1)
             else if length domains > 1
               then (Inl (ValueError (MultipleDomains (length domains))), w1)
             else
               (case domains of
                  [] \<Rightarrow> (Inl IndexError, w1)
                | d # _ \<Rightarrow> (Inr (DomainId d), w1))))"

text \<open>\<^verbatim>\<open>dict.get(key, default)\<close>.\<close>

definition dict_get :: "(pystr \<times> json) list \<Rightarrow> pystr \<Rightarrow> json \<Rightarrow> json" where
  "dict_get d k dflt = (case map_of d k of None \<Rightarrow> dflt | Some v \<Rightarrow> v)"

text \<open>
  Lines 46 to 48 of \<^verbatim>\<open>lambda_handler\<close>: the tenant identifier the handler goes on with.
\<close>

definition handler_domain_id ::
  "(pystr \<times> json) list \<Rightarrow> pystr option \<Rightarrow> world \<Rightarrow> (error + json) \<times> world" where
  "handler_domain_id event ENV_DOMAIN_ID w =
     (let domain_id = dict_get event (str ''DomainId'') (dict_get event (str ''domainId'') JNull)
      in if domain_id = JNull
         then (case get_domain_id ENV_DOMAIN_ID w of
                 (Inl e, w1) \<Rightarrow> (Inl e, w1)
               | (Inr d, w1) \<Rightarrow> (Inr (JStr d), w1))
         else (Inr domain_id, w))"

section \<open>The prompt pattern\<close>

text \<open>
  \<^verbatim>\<open>PROMPT_REGEX = r"bash-[\d\.]+\$ $"\<close>, compiled with \<^verbatim>\<open>re.MULTILINE\<close>. The fragment of
  \<^verbatim>\<open>re\<close> the pattern uses: a literal character, \<^verbatim>\<open>\d\<close>, a bracketed set, \<^verbatim>\<open>+\<close> on one of
  these, and \<^verbatim>\<open>$\<close>, which in multiline mode holds at the end of the string and before a
  newline. The pattern is a \<^verbatim>\<open>str\<close> and is compiled without \<^verbatim>\<open>re.ASCII\<close>, so \<^verbatim>\<open>\d\<close>
  matches every code point that the interpreter's Unicode database calls a decimal
  digit, not the ten ASCII digits only: the matcher takes that table.
\<close>

datatype atom =
    Lit nat
  | Digit
  | Bracket "atom list"

datatype re =
    One atom
  | Plus atom
  | Eol

fun atom_matches :: "(nat \<Rightarrow> bool) \<Rightarrow> atom \<Rightarrow> nat \<Rightarrow> bool" where
  "atom_matches decimal (Lit c) x = (x = c)"
| "atom_matches decimal Digit x = decimal x"
| "atom_matches decimal (Bracket as) x = (\<exists>a \<in> set as. atom_matches decimal a x)"

definition at_eol :: "pystr \<Rightarrow> bool" where
  "at_eol s = (case s of [] \<Rightarrow> True | x # _ \<Rightarrow> x = of_char (CHR 0x0A))"

text \<open>
  Whether the pattern matches at the start of the text. \<^verbatim>\<open>+\<close> takes one character of its
  class and then either goes on taking or hands over to the rest of the pattern: every
  split the backtracking matcher can try.
\<close>

fun match_here :: "(nat \<Rightarrow> bool) \<Rightarrow> re list \<Rightarrow> pystr \<Rightarrow> bool" where
  "match_here decimal [] s = True"
| "match_here decimal (One a # rs) [] = False"
| "match_here decimal (One a # rs) (x # t) =
     (atom_matches decimal a x \<and> match_here decimal rs t)"
| "match_here decimal (Plus a # rs) [] = False"
| "match_here decimal (Plus a # rs) (x # t) =
     (atom_matches decimal a x
      \<and> (match_here decimal (Plus a # rs) t \<or> match_here decimal rs t))"
| "match_here decimal (Eol # rs) s = (at_eol s \<and> match_here decimal rs s)"

definition PROMPT_REGEX :: "re list" where
  "PROMPT_REGEX =
     map (One \<circ> Lit) (str ''bash-'') @
     [Plus (Bracket [Digit, Lit (of_char (CHR ''.''))]), One (Lit (of_char (CHR ''$''))),
      One (Lit (of_char (CHR '' ''))), Eol]"

text \<open>
  \<^verbatim>\<open>re.compile(pattern, re.MULTILINE)\<close>: the compiled pattern holds the table of the
  interpreter that compiled it.
\<close>

type_synonym pattern = "(nat \<Rightarrow> bool) \<times> re list"

definition re_compile :: "(nat \<Rightarrow> bool) \<Rightarrow> re list \<Rightarrow> pattern" where
  "re_compile decimal p = (decimal, p)"

text \<open>\<^verbatim>\<open>pattern.search(s)\<close> as a truth value: a match at some position of \<open>s\<close>.\<close>

fun search :: "pattern \<Rightarrow> pystr \<Rightarrow> bool" where
  "search (decimal, p) [] = match_here decimal p []"
| "search (decimal, p) (x # t) = (match_here decimal p (x # t) \<or> search (decimal, p) t)"

text \<open>\<^verbatim>\<open>prompt_exp.search(res[1])\<close>: a value that is not a string raises \<^verbatim>\<open>TypeError\<close>.\<close>

definition py_search :: "pattern \<Rightarrow> json \<Rightarrow> error + bool" where
  "py_search p v = (case v of JStr s \<Rightarrow> Inr (search p s) | _ \<Rightarrow> Inl TypeError)"

section \<open>Strings and subscripts\<close>

text \<open>
  \<^verbatim>\<open>str.partition(sep)\<close> splits at the first occurrence of \<open>sep\<close> and gives the text
  itself and two empty strings when there is none; \<^verbatim>\<open>str.rpartition(sep)\<close> splits at the
  last one and gives two empty strings and the text when there is none. The separators
  of the source are not empty.
\<close>

fun str_partition :: "pystr \<Rightarrow> pystr \<Rightarrow> pystr \<times> pystr \<times> pystr" where
  "str_partition sep [] = ([], [], [])"
| "str_partition sep (c # cs) =
     (if take (length sep) (c # cs) = sep then ([], sep, drop (length sep) (c # cs))
      else (case str_partition sep cs of (a, b, r) \<Rightarrow> (c # a, b, r)))"

definition str_rpartition :: "pystr \<Rightarrow> pystr \<Rightarrow> pystr \<times> pystr \<times> pystr" where
  "str_rpartition sep s =
     (case str_partition (rev sep) (rev s) of
        (a, b, r) \<Rightarrow> if b = [] then ([], [], s) else (rev r, sep, rev a))"

text \<open>
  \<^verbatim>\<open>res[i]\<close> for a literal index: a list or a string in range gives its element (a string
  gives a string of one character), out of range raises \<^verbatim>\<open>IndexError\<close>; a dict decoded
  from JSON has string keys only, so the lookup raises \<^verbatim>\<open>KeyError\<close>; anything else is not
  subscriptable.
\<close>

fun getitem :: "json \<Rightarrow> nat \<Rightarrow> error + json" where
  "getitem (JArr xs) i = (if i < length xs then Inr (xs ! i) else Inl IndexError)"
| "getitem (JStr s) i = (if i < length s then Inr (JStr [s ! i]) else Inl IndexError)"
| "getitem (JObj kvs) i = Inl (KeyError (JNum (int i)))"
| "getitem v i = Inl TypeError"

text \<open>\<^verbatim>\<open>terminal['name']\<close>: a string key.\<close>

fun getitem_key :: "json \<Rightarrow> pystr \<Rightarrow> error + json" where
  "getitem_key (JObj kvs) k =
     (case map_of kvs k of None \<Rightarrow> Inl (KeyError (JStr k)) | Some v \<Rightarrow> Inr v)"
| "getitem_key v k = Inl TypeError"

section \<open>The HTTP session\<close>

text \<open>
  \<^verbatim>\<open>reqsess = requests.Session()\<close>: the cookie jar starts empty and every response stores
  its cookies in it. A request takes the next answer of the script.
\<close>

definition store_cookies :: "(pystr \<times> pystr) list \<Rightarrow> cookie_jar \<Rightarrow> cookie_jar" where
  "store_cookies cs jar = fold (\<lambda>(k, v). AList.update k v) cs jar"

definition request ::
  "event \<Rightarrow> cookie_jar \<Rightarrow> world \<Rightarrow> ((error + http_response) \<times> cookie_jar \<times> world) option" where
  "request ev jar w =
     (case http_script w of
        [] \<Rightarrow> None
      | answer # rest \<Rightarrow>
          (let w1 = emit ev (w\<lparr>http_script := rest\<rparr>)
           in case answer of
                Inl e \<Rightarrow> Some (Inl e, jar, w1)
              | Inr r \<Rightarrow> Some (Inr r, store_cookies (set_cookies r) jar, w1)))"

definition sleep :: "nat \<Rightarrow> world \<Rightarrow> world" where
  "sleep n w = emit (EvSleep n) w"

definition api_base_url :: "pystr \<Rightarrow> pystr" where
  "api_base_url sagemaker_login_url =
     fst (str_rpartition (str ''/'') (fst (str_partition (str ''?'') sagemaker_login_url))) @ (str ''/jupyter/default'')"

text \<open>Lines 61 to 74: the presigned URL and the login request.\<close>

definition login ::
  "json \<Rightarrow> json \<Rightarrow> world \<Rightarrow> ((error + pystr \<times> cookie_jar) \<times> world) option" where
  "login domain_id user_profile_name w =
     (let w1 = emit (EvPresign domain_id user_profile_name) w
      in case presigned_reply w of
           Inl e \<Rightarrow> Some (Inl e, w1)
         | Inr sagemaker_login_url \<Rightarrow>
             (case request (EvGet sagemaker_login_url) [] w1 of
                None \<Rightarrow> None
              | Some (Inl e, jar, w2) \<Rightarrow> Some (Inl e, w2)
              | Some (Inr login_resp, jar, w2) \<Rightarrow> Some (Inr (sagemaker_login_url, jar), w2)))"

section \<open>Waiting for the application\<close>

text \<open>
  Lines 82 to 85, the loop
  \<^verbatim>\<open>while app_status not in {"InService", "Terminated"}: time.sleep(2); app_status = reqsess.get(...).text\<close>.
\<close>

function poll_status ::
  "pystr \<Rightarrow> pystr \<Rightarrow> cookie_jar \<Rightarrow> world \<Rightarrow> ((error + pystr \<times> cookie_jar) \<times> world) option" where
  "poll_status base_url app_status jar w =
     (if app_status \<notin> {str ''InService'', str ''Terminated''}
      then
        (case request (EvGet (base_url @ str ''/app?appType=JupyterServer&appName=default'')) jar
                (sleep 2 w) of
           None \<Rightarrow> None
         | Some (Inl e, jar1, w1) \<Rightarrow> Some (Inl e, w1)
         | Some (Inr r, jar1, w1) \<Rightarrow> poll_status base_url (resp_text r) jar1 w1)
      else Some (Inr (app_status, jar), w))"
  by pat_completeness auto
termination
  by (relation "measure (\<lambda>(b, s, j, w). length (http_script w))")
     (auto simp: request_def sleep_def emit_def Let_def split: list.splits sum.splits)

text \<open>Lines 77 to 91.\<close>

definition await_ready ::
  "pystr \<Rightarrow> cookie_jar \<Rightarrow> world \<Rightarrow> ((error + cookie_jar) \<times> world) option" where
  "await_ready sagemaker_login_url jar w =
     (if map_of jar (str ''_xsrf'') = None
      then
        (let base_url = fst (str_rpartition (str ''/'') (fst (str_partition (str ''?'') sagemaker_login_url)))
         in case poll_status base_url (str ''Unknown'') jar w of
              None \<Rightarrow> None
            | Some (Inl e, w1) \<Rightarrow> Some (Inl e, w1)
            | Some (Inr (app_status, jar1), w1) \<Rightarrow>
                if app_status = str ''InService''
                then
                  (case request (EvGet (api_base_url sagemaker_login_url)) jar1 w1 of
                     None \<Rightarrow> None
                   | Some (Inl e, jar2, w2) \<Rightarrow> Some (Inl e, w2)
                   | Some (Inr ready_resp, jar2, w2) \<Rightarrow> Some (Inr jar2, w2))
                else Some (Inl (ValueError (UnusableStatus app_status)), w1))
      else Some (Inr jar, w))"

section \<open>The terminal and its channel\<close>

text \<open>
  Lines 94 to 99. \<^verbatim>\<open>reqsess.cookies["_xsrf"]\<close> is evaluated to build the arguments of the
  POST, so a jar without the cookie raises \<^verbatim>\<open>KeyError\<close> before the request is made.
\<close>

definition create_terminal ::
  "pystr \<Rightarrow> cookie_jar \<Rightarrow> world \<Rightarrow> ((error + json \<times> cookie_jar) \<times> world) option" where
  "create_terminal sagemaker_login_url jar w =
     (case map_of jar (str ''_xsrf'') of
        None \<Rightarrow> Some (Inl (KeyError (JStr (str ''_xsrf''))), w)
      | Some token \<Rightarrow>
          (case request (EvPost (api_base_url sagemaker_login_url @ str ''/api/terminals'')
                           [(str ''_xsrf'', token)]) jar w of
             None \<Rightarrow> None
           | Some (Inl e, jar1, w1) \<Rightarrow> Some (Inl e, w1)
           | Some (Inr terminal_resp, jar1, w1) \<Rightarrow>
               (case json_body terminal_resp of
                  None \<Rightarrow> Some (Inl JSONDecodeError, w1)
                | Some terminal \<Rightarrow> Some (Inr (terminal, jar1), w1))))"

text \<open>
  Lines 102 to 109. The event keeps the operands of the address and of the cookie header
  (the base address, \<^verbatim>\<open>terminal['name']\<close>, the jar) rather than the formatted strings.
\<close>

definition create_connection ::
  "pystr \<Rightarrow> json \<Rightarrow> cookie_jar \<Rightarrow> world \<Rightarrow> ((error + unit) \<times> world) option" where
  "create_connection sagemaker_login_url terminal jar w =
     (let ws_base_url =
            str ''wss://'' @ snd (snd (str_partition (str ''://'') (api_base_url sagemaker_login_url)))
              @ str ''/terminals/websocket''
      in case getitem_key terminal (str ''name'') of
           Inl e \<Rightarrow> Some (Inl e, w)
         | Inr name \<Rightarrow>
             (let w1 = emit (EvWsConnect ws_base_url name jar) w
              in case ws_connect_reply w of
                   Some e \<Rightarrow> Some (Inl e, w1)
                 | None \<Rightarrow> Some (Inr (), w1)))"

definition recv :: "world \<Rightarrow> ((error + json) \<times> world) option" where
  "recv w =
     (case ws_inbound w of
        [] \<Rightarrow> None
      | f # rest \<Rightarrow>
          (let w1 = emit (EvWsRecv f) (w\<lparr>ws_inbound := rest\<rparr>)
           in case f of
                Raises e \<Rightarrow> Some (Inl e, w1)
              | Malformed \<Rightarrow> Some (Inl JSONDecodeError, w1)
              | Message res \<Rightarrow> Some (Inr res, w1)))"

definition send :: "json \<Rightarrow> world \<Rightarrow> ((error + unit) \<times> world) option" where
  "send msg w =
     (case ws_sends w of
        [] \<Rightarrow> None
      | answer # rest \<Rightarrow>
          (let w1 = emit (EvWsSend msg) (w\<lparr>ws_sends := rest\<rparr>)
           in case answer of
                Some e \<Rightarrow> Some (Inl e, w1)
              | None \<Rightarrow> Some (Inr (), w1)))"

definition close :: "world \<Rightarrow> world" where
  "close w = emit EvWsClose w"

section \<open>The command driver\<close>

definition COMMAND_SCRIPT :: "pystr list" where
  "COMMAND_SCRIPT =
     [str ''git clone https://github.com/aws-samples/sagemaker-studio-auto-shutdown-extension.git'',
      str ''pwd && ls'',
      str ''cd sagemaker-studio-auto-shutdown-extension && ./install_tarball.sh'']"

text \<open>
  Lines 113 to 117:
  \<^verbatim>\<open>setup = None\<close>, then
  \<^verbatim>\<open>while setup is not None: res = json.loads(ws.recv()); if res[0] == "setup": setup = res[1]\<close>.
  The function is the loop from its test on, for the current value of \<^verbatim>\<open>setup\<close>.
\<close>

function await_setup :: "json \<Rightarrow> world \<Rightarrow> ((error + json) \<times> world) option" where
  "await_setup setup w =
     (if setup \<noteq> JNull
      then
        (case recv w of
           None \<Rightarrow> None
         | Some (Inl e, w1) \<Rightarrow> Some (Inl e, w1)
         | Some (Inr res, w1) \<Rightarrow>
             (case getitem res 0 of
                Inl e \<Rightarrow> Some (Inl e, w1)
              | Inr res0 \<Rightarrow>
                  if res0 = JStr (str ''setup'')
                  then (case getitem res 1 of
                          Inl e \<Rightarrow> Some (Inl e, w1)
                        | Inr res1 \<Rightarrow> await_setup res1 w1)
                  else await_setup setup w1))
      else Some (Inr setup, w))"
  by pat_completeness auto
termination
  by (relation "measure (\<lambda>(s, w). length (ws_inbound w))")
     (auto simp: recv_def emit_def Let_def split: list.splits frame.splits)

text \<open>
  Lines 125 to 131, the loop \<^verbatim>\<open>while True\<close> after a command is sent. The log line
  evaluates \<^verbatim>\<open>res[0]\<close> and then \<^verbatim>\<open>res[1]\<close>; the test is
  \<^verbatim>\<open>res[0] == "stdout" and prompt_exp.search(res[1])\<close>, whose second operand is
  evaluated only when the first holds.
\<close>

function await_prompt :: "pattern \<Rightarrow> world \<Rightarrow> ((error + unit) \<times> world) option" where
  "await_prompt prompt_exp w =
     (case recv w of
        None \<Rightarrow> None
      | Some (Inl e, w1) \<Rightarrow> Some (Inl e, w1)
      | Some (Inr res, w1) \<Rightarrow>
          (case getitem res 0 of
             Inl e \<Rightarrow> Some (Inl e, w1)
           | Inr res0 \<Rightarrow>
               (case getitem res 1 of
                  Inl e \<Rightarrow> Some (Inl e, w1)
                | Inr res1 \<Rightarrow>
                    if res0 = JStr (str ''stdout'')
                    then (case py_search prompt_exp res1 of
                            Inl e \<Rightarrow> Some (Inl e, w1)
                          | Inr found \<Rightarrow>
                              if found then Some (Inr (), w1)
                              else await_prompt prompt_exp w1)
                    else await_prompt prompt_exp w1)))"
  by pat_completeness auto
termination
  by (relation "measure (\<lambda>(p, w). length (ws_inbound w))")
     (auto simp: recv_def emit_def Let_def split: list.splits frame.splits)

text \<open>
  Lines 121 to 131, the loop over the script:
  \<^verbatim>\<open>ws.send(json.dumps(["stdin", c + "\n"]))\<close>, then the wait for the prompt. The event of
  a send keeps the message before \<^verbatim>\<open>json.dumps\<close>.
\<close>

fun send_commands :: "pattern \<Rightarrow> pystr list \<Rightarrow> world \<Rightarrow> ((error + unit) \<times> world) option" where
  "send_commands prompt_exp [] w = Some (Inr (), w)"
| "send_commands prompt_exp (c # cs) w =
     (case send (JArr [JStr (str ''stdin''), JStr (c @ str ''\<newline>'')]) w of
        None \<Rightarrow> None
      | Some (Inl e, w1) \<Rightarrow> Some (Inl e, w1)
      | Some (Inr u, w1) \<Rightarrow>
          (case await_prompt prompt_exp w1 of
             None \<Rightarrow> None
           | Some (Inl e, w2) \<Rightarrow> Some (Inl e, w2)
           | Some (Inr u2, w2) \<Rightarrow> send_commands prompt_exp cs w2))"

text \<open>
  Lines 112 to 133, the body of the \<^verbatim>\<open>try\<close>;
  \<^verbatim>\<open>prompt_exp = re.compile(PROMPT_REGEX, re.MULTILINE)\<close> is line 120.
\<close>

definition run_script :: "world \<Rightarrow> ((error + unit) \<times> world) option" where
  "run_script w =
     (case await_setup JNull w of
        None \<Rightarrow> None
      | Some (Inl e, w1) \<Rightarrow> Some (Inl e, w1)
      | Some (Inr setup, w1) \<Rightarrow>
          (let prompt_exp = re_compile (unicode_decimal w1) PROMPT_REGEX
           in send_commands prompt_exp COMMAND_SCRIPT w1))"

text \<open>
  Lines 111 to 135, \<^verbatim>\<open>try: ... finally: ws.close()\<close>: when the body ends, with a value
  or with an exception, the channel is closed and the body's outcome stands. A body that
  does not end never reaches \<^verbatim>\<open>finally\<close>.
\<close>

definition command_driver :: "world \<Rightarrow> ((error + unit) \<times> world) option" where
  "command_driver w =
     (case run_script w of
        None \<Rightarrow> None
      | Some (outcome, w1) \<Rightarrow> Some (outcome, close w1))"

section \<open>The run and the handler\<close>

text \<open>Lines 60 to 135.\<close>

definition run_commands :: "json \<Rightarrow> json \<Rightarrow> world \<Rightarrow> ((error + unit) \<times> world) option" where
  "run_commands domain_id user_profile_name w =
     (case login domain_id user_profile_name w of
        None \<Rightarrow> None
      | Some (Inl e, w1) \<Rightarrow> Some (Inl e, w1)
      | Some (Inr (sagemaker_login_url, jar), w1) \<Rightarrow>
          (case await_ready sagemaker_login_url jar w1 of
             None \<Rightarrow> None
           | Some (Inl e, w2) \<Rightarrow> Some (Inl e, w2)
           | Some (Inr jar2, w2) \<Rightarrow>
               (case create_terminal sagemaker_login_url jar2 w2 of
                  None \<Rightarrow> None
                | Some (Inl e, w3) \<Rightarrow> Some (Inl e, w3)
                | Some (Inr (terminal, jar3), w3) \<Rightarrow>
                    (case create_connection sagemaker_login_url terminal jar3 w3 of
                       None \<Rightarrow> None
                     | Some (Inl e, w4) \<Rightarrow> Some (Inl e, w4)
                     | Some (Inr ws, w4) \<Rightarrow> command_driver w4))))"

text \<open>Lines 44 to 57.\<close>

definition lambda_handler ::
  "(pystr \<times> json) list \<Rightarrow> pystr option \<Rightarrow> world \<Rightarrow> ((error + unit) \<times> world) option" where
  "lambda_handler event ENV_DOMAIN_ID w =
     (case handler_domain_id event ENV_DOMAIN_ID w of
        (Inl e, w1) \<Rightarrow> Some (Inl e, w1)
      | (Inr domain_id, w1) \<Rightarrow>
          (let user_profile_name =
                 dict_get event (str ''UserProfileName'') (dict_get event (str ''userProfileName'') JNull)
           in if user_profile_name = JNull
              then Some (Inl (ValueError MissingUserProfileName), w1)
              else run_commands domain_id user_profile_name w1))"

section \<open>Notions of the properties and inputs of the concrete runs\<close>

text \<open>
  The decimal digits (category Nd) of Unicode 14.0.0, the database of CPython 3.11, as
  ranges of code points; the table of the concrete runs.
\<close>

definition unicode_14_decimal :: "nat \<Rightarrow> bool" where
  "unicode_14_decimal n =
     list_ex (\<lambda>(lo, hi). lo \<le> n \<and> n \<le> hi)
       [(0x0030, 0x0039), (0x0660, 0x0669), (0x06F0, 0x06F9), (0x07C0, 0x07C9),
        (0x0966, 0x096F), (0x09E6, 0x09EF), (0x0A66, 0x0A6F), (0x0AE6, 0x0AEF),
        (0x0B66, 0x0B6F), (0x0BE6, 0x0BEF), (0x0C66, 0x0C6F), (0x0CE6, 0x0CEF),
        (0x0D66, 0x0D6F), (0x0DE6, 0x0DEF), (0x0E50, 0x0E59), (0x0ED0, 0x0ED9),
        (0x0F20, 0x0F29), (0x1040, 0x1049), (0x1090, 0x1099), (0x17E0, 0x17E9),
        (0x1810, 0x1819), (0x1946, 0x194F), (0x19D0, 0x19D9), (0x1A80, 0x1A89),
        (0x1A90, 0x1A99), (0x1B50, 0x1B59), (0x1BB0, 0x1BB9), (0x1C40, 0x1C49),
        (0x1C50, 0x1C59), (0xA620, 0xA629), (0xA8D0, 0xA8D9), (0xA900, 0xA909),
        (0xA9D0, 0xA9D9), (0xA9F0, 0xA9F9), (0xAA50, 0xAA59), (0xABF0, 0xABF9),
        (0xFF10, 0xFF19), (0x104A0, 0x104A9), (0x10D30, 0x10D39), (0x11066, 0x1106F),
        (0x110F0, 0x110F9), (0x11136, 0x1113F), (0x111D0, 0x111D9), (0x112F0, 0x112F9),
        (0x11450, 0x11459), (0x114D0, 0x114D9), (0x11650, 0x11659), (0x116C0, 0x116C9),
        (0x11730, 0x11739), (0x118E0, 0x118E9), (0x11950, 0x11959), (0x11C50, 0x11C59),
        (0x11D50, 0x11D59), (0x11DA0, 0x11DA9), (0x16A60, 0x16A69), (0x16AC0, 0x16AC9),
        (0x16B50, 0x16B59), (0x1D7CE, 0x1D7FF), (0x1E140, 0x1E149), (0x1E2F0, 0x1E2F9),
        (0x1E950, 0x1E959), (0x1FBF0, 0x1FBF9)]"

text \<open>A table holds the ten ASCII digits; every version of the database does.\<close>

definition ascii_digits :: "(nat \<Rightarrow> bool) \<Rightarrow> bool" where
  "ascii_digits decimal = (\<forall>n \<in> {0x30..0x39}. decimal n)"

definition idle_world :: world where
  "idle_world =
     \<lparr>list_domains_reply = Inr [], presigned_reply = Inl ClientError, http_script = [],
      ws_connect_reply = None, ws_inbound = [], ws_sends = [],
      unicode_decimal = unicode_14_decimal, trace = []\<rparr>"

definition domain_a :: domain_details where
  "domain_a = \<lparr>DomainId = str ''d-abc'', DomainName = (str ''studio-a'')\<rparr>"

definition domain_b :: domain_details where
  "domain_b = \<lparr>DomainId = str ''d-xyz'', DomainName = (str ''studio-b'')\<rparr>"

text \<open>
  An event that gives no tenant identifier: its key \<^verbatim>\<open>DomainId\<close> holds null, or it has
  no key \<^verbatim>\<open>DomainId\<close> and its key \<^verbatim>\<open>domainId\<close> is missing or holds null.
\<close>

definition no_event_id :: "(pystr \<times> json) list \<Rightarrow> bool" where
  "no_event_id event =
     (map_of event (str ''DomainId'') = Some JNull
      \<or> map_of event (str ''DomainId'') = None
         \<and> (map_of event (str ''domainId'') = None
            \<or> map_of event (str ''domainId'') = Some JNull))"

text \<open>An event with a null \<^verbatim>\<open>DomainId\<close> beside an identifier under \<^verbatim>\<open>domainId\<close>.\<close>

definition null_domain_event :: "(pystr \<times> json) list" where
  "null_domain_event =
     [(str ''DomainId'', JNull), (str ''domainId'', JStr (str ''d-2'')),
      (str ''UserProfileName'', JStr (str ''u1''))]"

text \<open>The address of the status request of line 84, for a login address.\<close>

definition app_status_url :: "pystr \<Rightarrow> pystr" where
  "app_status_url sagemaker_login_url =
     fst (str_rpartition (str ''/'') (fst (str_partition (str ''?'') sagemaker_login_url)))
       @ (str ''/app?appType=JupyterServer&appName=default'')"

text \<open>The calls of \<open>n\<close> rounds of the polling loop: a sleep of 2, then the status request.\<close>

definition polling :: "pystr \<Rightarrow> nat \<Rightarrow> event list" where
  "polling base_url n =
     concat (replicate n [EvSleep 2, EvGet (base_url @ str ''/app?appType=JupyterServer&appName=default'')])"

text \<open>The jar after the cookies of some responses, in order, were stored.\<close>

definition jar_after :: "cookie_jar \<Rightarrow> http_response list \<Rightarrow> cookie_jar" where
  "jar_after jar rs = foldl (\<lambda>j r. store_cookies (set_cookies r) j) jar rs"

text \<open>An answer that is a response carrying the anti-CSRF cookie.\<close>

definition sets_xsrf :: "error + http_response \<Rightarrow> bool" where
  "sets_xsrf answer =
     (case answer of Inl e \<Rightarrow> False | Inr r \<Rightarrow> map_of (set_cookies r) (str ''_xsrf'') \<noteq> None)"

text \<open>The calls a run has made, and whether it ended with a value.\<close>

definition trace_after :: "('a \<times> world) option \<Rightarrow> event list" where
  "trace_after run = (case run of None \<Rightarrow> [] | Some (outcome, w) \<Rightarrow> trace w)"

definition returned_normally :: "((error + 'a) \<times> world) option \<Rightarrow> bool" where
  "returned_normally run = (case run of Some (Inr v, w) \<Rightarrow> True | _ \<Rightarrow> False)"

definition plain :: "pystr \<Rightarrow> http_response" where
  "plain body = \<lparr>resp_text = body, json_body = None, set_cookies = []\<rparr>"

definition studio_login_url :: pystr where
  "studio_login_url = str ''https://d-abc.studio.us-east-1.sagemaker.aws/auth?token=xyz''"

definition starting_world :: world where
  "starting_world =
     idle_world\<lparr>http_script :=
       [Inr (plain (str ''Pending'')), Inr (plain (str ''Pending'')), Inr (plain (str ''InService'')),
        Inr (plain (str ''ok''))]\<rparr>"

definition terminated_world :: world where
  "terminated_world =
     idle_world\<lparr>http_script :=
       [Inr (plain (str ''Pending'')), Inr (plain (str ''Terminated'')), Inr (plain (str ''ok''))]\<rparr>"

definition xsrf_less_world :: world where
  "xsrf_less_world =
     idle_world\<lparr>presigned_reply := Inr studio_login_url,
       http_script :=
         [Inr (plain (str ''<html>'')), Inr (plain (str ''Pending'')), Inr (plain (str ''InService'')),
          Inr (plain (str ''ok''))]\<rparr>"

text \<open>
  A frame the claims call a prompt: a message whose stream name is \<^verbatim>\<open>stdout\<close> and whose
  payload is a string the pattern is found in.
\<close>

definition prompt_message :: "pattern \<Rightarrow> frame \<Rightarrow> bool" where
  "prompt_message p f =
     (case f of
        Message res \<Rightarrow>
          getitem res 0 = Inr (JStr (str ''stdout''))
          \<and> (case getitem res 1 of Inr (JStr payload) \<Rightarrow> search p payload | _ \<Rightarrow> False)
      | _ \<Rightarrow> False)"

definition stream_message :: "pystr \<Rightarrow> pystr \<Rightarrow> frame" where
  "stream_message stream_name payload = Message (JArr [JStr stream_name, JStr payload])"

definition attached_world :: world where
  "attached_world =
     idle_world\<lparr>ws_inbound :=
         [stream_message (str ''stdout'') (str ''Last login''), Message (JArr [JStr (str ''setup''), JObj []]),
          stream_message (str ''stdout'') (str ''bash-5.1$ ''),
          stream_message (str ''stdout'') (str ''pwd && ls\<newline>/root\<newline>bash-5.1$ ''),
          stream_message (str ''stderr'') (str ''bash-5.1$ ''),
          stream_message (str ''stdout'') (str ''done\<newline>bash-5.1$ '')],
       ws_sends := [None, None, None]\<rparr>"

definition broken_world :: world where
  "broken_world =
     idle_world\<lparr>ws_inbound :=
         [stream_message (str ''stdout'') (str ''bash-5.1$ ''), Raises WebSocketException,
          stream_message (str ''stdout'') (str ''bash-5.1$ '')],
       ws_sends := [None, None, None]\<rparr>"


definition prompt_frame :: frame where
  "prompt_frame = stream_message (str ''stdout'') (str ''bash-5.1$ '')"

definition stdin_message :: "pystr \<Rightarrow> json" where
  "stdin_message c = JArr [JStr (str ''stdin''), JStr (c @ str ''\<newline>'')]"

text \<open>
  The calls of one round of the driver: the send of a command, then the frames read.
  A round ends at its first prompt when its last frame is a prompt and no earlier one is.
\<close>

definition command_round :: "pystr \<Rightarrow> frame list \<Rightarrow> event list" where
  "command_round c fs = EvWsSend (stdin_message c) # map EvWsRecv fs"

definition ends_at_first_prompt :: "pattern \<Rightarrow> frame list \<Rightarrow> bool" where
  "ends_at_first_prompt p fs =
     (fs \<noteq> [] \<and> prompt_message p (last fs) \<and> (\<forall>h \<in> set (butlast fs). \<not> prompt_message p h))"

definition prompt_world :: world where
  "prompt_world =
     idle_world\<lparr>ws_inbound := [prompt_frame, prompt_frame, prompt_frame],
       ws_sends := [None, None, None]\<rparr>"

definition noisy_world :: world where
  "noisy_world =
     idle_world\<lparr>ws_inbound :=
       [stream_message (str ''stdout'') (str ''hi\<newline>''), stream_message (str ''stderr'') (str ''bash-5.1$ ''),
        stream_message (str ''stdout'') (str ''bash-5.1$ computing''),
        stream_message (str ''stdout'') (str ''total 0\<newline>bash-5.1.16$ ''),
        stream_message (str ''stdout'') (str ''later'')]\<rparr>"

section \<open>Tenant resolution: properties\<close>

lemma str_eq_iff [simp]: "str a = str b \<longleftrightarrow> a = b"
  by (simp add: str_def inj_map_eq_map inj_of_char)

lemma str_empty_iff [simp]: "str a = [] \<longleftrightarrow> a = []"
  by (simp add: str_def)

lemma no_event_id_lookup:
  "no_event_id event \<longleftrightarrow>
   dict_get event (str ''DomainId'') (dict_get event (str ''domainId'') JNull) = JNull"
  by (auto simp: no_event_id_def dict_get_def split: option.splits)

text \<open>
  C1. With no environment default (the variable unset, or set to the empty string) and a
  control plane that lists zero tenants, the claim expects a ConfigurationError. The
  guard of the source is \<^verbatim>\<open>len(domains) < 0\<close>, which no list satisfies, so the empty list
  reaches \<^verbatim>\<open>domains[0]\<close>: \<open>get_domain_id\<close> ends with \<^verbatim>\<open>IndexError\<close>, which is not a
  ConfigurationError, after one call of the tenant listing.
\<close>

theorem get_domain_id_empty_list:
  "get_domain_id None (w\<lparr>list_domains_reply := Inr []\<rparr>) =
     (Inl IndexError, emit EvListDomains (w\<lparr>list_domains_reply := Inr []\<rparr>))
   \<and> get_domain_id (Some []) (w\<lparr>list_domains_reply := Inr []\<rparr>) =
     (Inl IndexError, emit EvListDomains (w\<lparr>list_domains_reply := Inr []\<rparr>))
   \<and> \<not> is_ConfigurationError IndexError"
  by (simp add: get_domain_id_def truthy_def list_domains_def)

text \<open>
  C6. With no usable environment default, a tenant list of exactly one element makes
  \<open>get_domain_id\<close> return that tenant's identifier, and a list of more than one element
  makes it fail with the \<^verbatim>\<open>ValueError\<close> about multiple domains, a ConfigurationError; in
  both cases the tenant listing was called once.
\<close>

theorem get_domain_id_one_or_many:
  assumes "\<not> truthy env" and "list_domains_reply w = Inr domains"
  shows "(domains = [d] \<longrightarrow> get_domain_id env w = (Inr (DomainId d), emit EvListDomains w))
       \<and> (length domains > 1 \<longrightarrow>
            get_domain_id env w =
              (Inl (ValueError (MultipleDomains (length domains))), emit EvListDomains w)
            \<and> is_ConfigurationError (ValueError (MultipleDomains (length domains))))"
  using assms
  by (cases domains) (auto simp: get_domain_id_def list_domains_def)

theorem get_domain_id_one_or_many_witness:
  "\<not> truthy None
   \<and> list_domains_reply (idle_world\<lparr>list_domains_reply := Inr [domain_a]\<rparr>) = Inr [domain_a]
   \<and> get_domain_id None (idle_world\<lparr>list_domains_reply := Inr [domain_a]\<rparr>) =
       (Inr (str ''d-abc''), emit EvListDomains (idle_world\<lparr>list_domains_reply := Inr [domain_a]\<rparr>))
   \<and> list_domains_reply (idle_world\<lparr>list_domains_reply := Inr [domain_a, domain_b]\<rparr>)
       = Inr [domain_a, domain_b]
   \<and> 1 < length [domain_a, domain_b]
   \<and> get_domain_id None (idle_world\<lparr>list_domains_reply := Inr [domain_a, domain_b]\<rparr>) =
       (Inl (ValueError (MultipleDomains 2)),
        emit EvListDomains (idle_world\<lparr>list_domains_reply := Inr [domain_a, domain_b]\<rparr>))"
proof -
  have env: "\<not> truthy None"
    by (simp add: truthy_def)
  have one: "list_domains_reply (idle_world\<lparr>list_domains_reply := Inr [domain_a]\<rparr>) = Inr [domain_a]"
    by simp
  have two: "list_domains_reply (idle_world\<lparr>list_domains_reply := Inr [domain_a, domain_b]\<rparr>)
       = Inr [domain_a, domain_b]"
    by simp
  have id_a: "DomainId domain_a = str ''d-abc''"
    by (simp add: domain_a_def)
  show ?thesis
    using env get_domain_id_one_or_many [OF env one, of domain_a]
      get_domain_id_one_or_many [OF env two, of domain_a] id_a
    by simp
qed

text \<open>
  C8. A tenant identifier that resolution reads is returned as it is and the world is
  left as it was, so the tenant listing is not called, whatever the control plane would
  answer: a non-empty environment default in \<open>get_domain_id\<close>, and in the handler a value
  other than null under the event key \<^verbatim>\<open>DomainId\<close>, or under \<^verbatim>\<open>domainId\<close> when the event
  has no key \<^verbatim>\<open>DomainId\<close>; these two cases are all the events whose lookup
  \<^verbatim>\<open>event.get("DomainId", event.get("domainId"))\<close> gives a value other than \<^verbatim>\<open>None\<close>. A
  value under \<^verbatim>\<open>domainId\<close> is not read when the event has the key \<^verbatim>\<open>DomainId\<close> with
  the value null: resolution then goes on as for an event that holds no identifier.
\<close>

theorem explicit_id_no_control_plane_call:
  "(s \<noteq> [] \<longrightarrow> get_domain_id (Some s) w = (Inr s, w))
   \<and> (map_of event (str ''DomainId'') = Some v \<and> v \<noteq> JNull \<longrightarrow>
        handler_domain_id event env w = (Inr v, w))
   \<and> (map_of event (str ''DomainId'') = None \<and> map_of event (str ''domainId'') = Some v
        \<and> v \<noteq> JNull \<longrightarrow>
        handler_domain_id event env w = (Inr v, w))
   \<and> ((dict_get event (str ''DomainId'') (dict_get event (str ''domainId'') JNull) = v
         \<and> v \<noteq> JNull)
        = (map_of event (str ''DomainId'') = Some v \<and> v \<noteq> JNull
           \<or> map_of event (str ''DomainId'') = None \<and> map_of event (str ''domainId'') = Some v
              \<and> v \<noteq> JNull))
   \<and> (map_of event (str ''DomainId'') = Some JNull \<longrightarrow>
        handler_domain_id event env w = handler_domain_id [] env w)"
  by (auto simp: get_domain_id_def truthy_def handler_domain_id_def dict_get_def
        split: option.splits)

theorem explicit_id_no_control_plane_call_witness:
  "str ''d-env'' \<noteq> []
   \<and> get_domain_id (Some (str ''d-env'')) idle_world = (Inr (str ''d-env''), idle_world)
   \<and> map_of [(str ''DomainId'', JStr (str ''d-1'')), (str ''domainId'', JStr (str ''d-2''))]
        (str ''DomainId'') = Some (JStr (str ''d-1''))
   \<and> JStr (str ''d-1'') \<noteq> JNull
   \<and> handler_domain_id
        [(str ''DomainId'', JStr (str ''d-1'')), (str ''domainId'', JStr (str ''d-2''))]
        None idle_world = (Inr (JStr (str ''d-1'')), idle_world)
   \<and> map_of [(str ''domainId'', JStr (str ''d-2''))] (str ''DomainId'') = None
   \<and> map_of [(str ''domainId'', JStr (str ''d-2''))] (str ''domainId'')
        = Some (JStr (str ''d-2''))
   \<and> JStr (str ''d-2'') \<noteq> JNull
   \<and> handler_domain_id [(str ''domainId'', JStr (str ''d-2''))] None idle_world
        = (Inr (JStr (str ''d-2'')), idle_world)
   \<and> map_of null_domain_event (str ''DomainId'') = Some JNull
   \<and> handler_domain_id null_domain_event (Some (str ''d-env'')) idle_world
        = handler_domain_id [] (Some (str ''d-env'')) idle_world"
proof -
  have null_key: "map_of null_domain_event (str ''DomainId'') = Some JNull"
    by (simp add: null_domain_event_def)
  show ?thesis
    using null_key
      explicit_id_no_control_plane_call
        [where s = "str ''d-env''" and w = idle_world and v = "JStr (str ''d-1'')"
           and env = None
           and event = "[(str ''DomainId'', JStr (str ''d-1'')),
                         (str ''domainId'', JStr (str ''d-2''))]"]
      explicit_id_no_control_plane_call
        [where s = "str ''d-env''" and w = idle_world and v = "JStr (str ''d-2'')"
           and env = None and event = "[(str ''domainId'', JStr (str ''d-2''))]"]
      explicit_id_no_control_plane_call
        [where s = "str ''d-env''" and w = idle_world and v = "JStr (str ''d-2'')"
           and env = "Some (str ''d-env'')" and event = null_domain_event]
    by simp
qed

text \<open>
  The claim C8 as it was worded, on an event that supplies an identifier under
  \<^verbatim>\<open>domainId\<close> beside a null \<^verbatim>\<open>DomainId\<close>, with no environment default: the identifier
  is not returned and the tenant listing is called.
\<close>

theorem explicit_id_dropped_counterexample:
  "map_of null_domain_event (str ''domainId'') = Some (JStr (str ''d-2''))
   \<and> handler_domain_id null_domain_event None
        (idle_world\<lparr>list_domains_reply := Inr [domain_a]\<rparr>)
       = (Inr (JStr (str ''d-abc'')),
          emit EvListDomains (idle_world\<lparr>list_domains_reply := Inr [domain_a]\<rparr>))
   \<and> JStr (str ''d-abc'') \<noteq> JStr (str ''d-2'')
   \<and> trace (snd (handler_domain_id null_domain_event None
                    (idle_world\<lparr>list_domains_reply := Inr [domain_a]\<rparr>)))
       = [EvListDomains]"
  by (simp add: null_domain_event_def handler_domain_id_def dict_get_def get_domain_id_def
        truthy_def list_domains_def emit_def idle_world_def domain_a_def)

text \<open>
  C9. The order of precedence in the handler goes by the keys of the event. A value
  other than null under the event key \<^verbatim>\<open>DomainId\<close> is the tenant identifier, whatever
  \<^verbatim>\<open>domainId\<close> and the environment hold; when the event has no key \<^verbatim>\<open>DomainId\<close>, a value
  other than null under \<^verbatim>\<open>domainId\<close> is, whatever the environment holds. The event
  gives no identifier when \<^verbatim>\<open>DomainId\<close> is null (whatever \<^verbatim>\<open>domainId\<close> holds), or when
  \<^verbatim>\<open>DomainId\<close> is not a key and \<^verbatim>\<open>domainId\<close> is null or not a key; that is when the
  lookup \<^verbatim>\<open>event.get("DomainId", event.get("domainId"))\<close> gives \<^verbatim>\<open>None\<close>. Then a non-empty
  environment default is the identifier, and when the default is unset or empty the
  control plane is asked and its only tenant is the identifier. The tenant listing is
  called exactly when the event gives no identifier and the default is unset or empty,
  and then once. The identifier so resolved is the one \<open>lambda_handler\<close> runs the
  commands with.
\<close>

theorem tenant_precedence:
  "(map_of event (str ''DomainId'') = Some v \<and> v \<noteq> JNull \<longrightarrow>
      handler_domain_id event env w = (Inr v, w))
   \<and> (map_of event (str ''DomainId'') = None \<and> map_of event (str ''domainId'') = Some v
        \<and> v \<noteq> JNull \<longrightarrow>
      handler_domain_id event env w = (Inr v, w))
   \<and> (no_event_id event \<and> env = Some s \<and> s \<noteq> [] \<longrightarrow>
      handler_domain_id event env w = (Inr (JStr s), w))
   \<and> (no_event_id event \<and> \<not> truthy env \<and> list_domains_reply w = Inr [d] \<longrightarrow>
      handler_domain_id event env w = (Inr (JStr (DomainId d)), emit EvListDomains w))
   \<and> trace (snd (handler_domain_id event env w)) =
       trace w @ (if no_event_id event \<and> \<not> truthy env then [EvListDomains] else [])
   \<and> no_event_id event =
       (dict_get event (str ''DomainId'') (dict_get event (str ''domainId'') JNull) = JNull)
   \<and> (handler_domain_id event env w = (Inr v, w1)
        \<and> dict_get event (str ''UserProfileName'')
             (dict_get event (str ''userProfileName'') JNull) = u
        \<and> u \<noteq> JNull \<longrightarrow>
      lambda_handler event env w = run_commands v u w1)"
proof -
  have by_key: "map_of event (str ''DomainId'') = Some v \<and> v \<noteq> JNull \<longrightarrow>
      handler_domain_id event env w = (Inr v, w)"
    by (simp add: handler_domain_id_def dict_get_def)
  have by_other_key: "map_of event (str ''DomainId'') = None
      \<and> map_of event (str ''domainId'') = Some v \<and> v \<noteq> JNull \<longrightarrow>
      handler_domain_id event env w = (Inr v, w)"
    by (simp add: handler_domain_id_def dict_get_def)
  have by_default: "no_event_id event \<and> env = Some s \<and> s \<noteq> [] \<longrightarrow>
      handler_domain_id event env w = (Inr (JStr s), w)"
    by (simp add: no_event_id_lookup handler_domain_id_def get_domain_id_def truthy_def)
  have by_listing: "no_event_id event \<and> \<not> truthy env \<and> list_domains_reply w = Inr [d] \<longrightarrow>
      handler_domain_id event env w = (Inr (JStr (DomainId d)), emit EvListDomains w)"
    by (simp add: no_event_id_lookup handler_domain_id_def get_domain_id_def list_domains_def)
  have calls: "trace (snd (handler_domain_id event env w)) =
       trace w @ (if no_event_id event \<and> \<not> truthy env then [EvListDomains] else [])"
    by (auto simp: no_event_id_lookup handler_domain_id_def get_domain_id_def Let_def
          list_domains_def emit_def split: sum.splits list.splits)
  have handler: "handler_domain_id event env w = (Inr v, w1)
        \<and> dict_get event (str ''UserProfileName'')
             (dict_get event (str ''userProfileName'') JNull) = u
        \<and> u \<noteq> JNull \<longrightarrow>
      lambda_handler event env w = run_commands v u w1"
    by (simp add: lambda_handler_def)
  from by_key by_other_key by_default by_listing calls no_event_id_lookup handler
  show ?thesis
    by blast
qed

theorem tenant_precedence_witness:
  "map_of [(str ''DomainId'', JStr (str ''d-1'')), (str ''domainId'', JStr (str ''d-2''))]
        (str ''DomainId'') = Some (JStr (str ''d-1''))
   \<and> JStr (str ''d-1'') \<noteq> JNull
   \<and> handler_domain_id
        [(str ''DomainId'', JStr (str ''d-1'')), (str ''domainId'', JStr (str ''d-2''))]
        (Some (str ''d-env'')) idle_world = (Inr (JStr (str ''d-1'')), idle_world)
   \<and> map_of [(str ''domainId'', JStr (str ''d-2''))] (str ''DomainId'') = None
   \<and> map_of [(str ''domainId'', JStr (str ''d-2''))] (str ''domainId'')
        = Some (JStr (str ''d-2''))
   \<and> JStr (str ''d-2'') \<noteq> JNull
   \<and> handler_domain_id [(str ''domainId'', JStr (str ''d-2''))] (Some (str ''d-env''))
        idle_world = (Inr (JStr (str ''d-2'')), idle_world)
   \<and> no_event_id null_domain_event
   \<and> str ''d-env'' \<noteq> []
   \<and> handler_domain_id null_domain_event (Some (str ''d-env'')) idle_world
        = (Inr (JStr (str ''d-env'')), idle_world)
   \<and> no_event_id [(str ''UserProfileName'', JStr (str ''u1''))]
   \<and> \<not> truthy None
   \<and> list_domains_reply (idle_world\<lparr>list_domains_reply := Inr [domain_a]\<rparr>) = Inr [domain_a]
   \<and> handler_domain_id [(str ''UserProfileName'', JStr (str ''u1''))] None
        (idle_world\<lparr>list_domains_reply := Inr [domain_a]\<rparr>)
        = (Inr (JStr (str ''d-abc'')),
           emit EvListDomains (idle_world\<lparr>list_domains_reply := Inr [domain_a]\<rparr>))
   \<and> dict_get [(str ''DomainId'', JStr (str ''d-1'')), (str ''UserProfileName'', JStr (str ''u1''))]
        (str ''UserProfileName'')
        (dict_get [(str ''DomainId'', JStr (str ''d-1'')), (str ''UserProfileName'', JStr (str ''u1''))]
           (str ''userProfileName'') JNull) = JStr (str ''u1'')
   \<and> JStr (str ''u1'') \<noteq> JNull
   \<and> lambda_handler
        [(str ''DomainId'', JStr (str ''d-1'')), (str ''UserProfileName'', JStr (str ''u1''))]
        None idle_world
        = run_commands (JStr (str ''d-1'')) (JStr (str ''u1'')) idle_world"
proof -
  let ?both = "[(str ''DomainId'', JStr (str ''d-1'')), (str ''domainId'', JStr (str ''d-2''))]"
  let ?lower = "[(str ''domainId'', JStr (str ''d-2''))]"
  let ?none = "[(str ''UserProfileName'', JStr (str ''u1''))]"
  let ?named = "[(str ''DomainId'', JStr (str ''d-1'')), (str ''UserProfileName'', JStr (str ''u1''))]"
  have no_env: "\<not> truthy None"
    by (simp add: truthy_def)
  have id_a: "DomainId domain_a = str ''d-abc''"
    by (simp add: domain_a_def)
  have hidden: "no_event_id null_domain_event"
    by (simp add: no_event_id_def null_domain_event_def)
  have absent: "no_event_id ?none"
    by (simp add: no_event_id_def)
  have profile: "dict_get ?named (str ''UserProfileName'')
      (dict_get ?named (str ''userProfileName'') JNull) = JStr (str ''u1'')"
    by (simp add: dict_get_def)
  have named: "handler_domain_id ?named None idle_world = (Inr (JStr (str ''d-1'')), idle_world)"
    using tenant_precedence [where event = ?named and v = "JStr (str ''d-1'')" and env = None
        and w = idle_world]
    by simp
  show ?thesis
    using no_env id_a hidden absent profile named
      tenant_precedence
        [where event = ?both and v = "JStr (str ''d-1'')" and env = "Some (str ''d-env'')"
           and w = idle_world and s = "str ''d-env''" and d = domain_a]
      tenant_precedence
        [where event = ?lower and v = "JStr (str ''d-2'')" and env = "Some (str ''d-env'')"
           and w = idle_world and s = "str ''d-env''" and d = domain_a]
      tenant_precedence
        [where event = null_domain_event and v = "JStr (str ''d-2'')"
           and env = "Some (str ''d-env'')" and w = idle_world and s = "str ''d-env''"
           and d = domain_a]
      tenant_precedence
        [where event = ?none and v = "JStr (str ''d-2'')" and env = None
           and w = "idle_world\<lparr>list_domains_reply := Inr [domain_a]\<rparr>"
           and s = "str ''d-env''" and d = domain_a]
      tenant_precedence
        [where event = ?named and v = "JStr (str ''d-1'')" and env = None
           and w = idle_world and ?w1.0 = idle_world and u = "JStr (str ''u1'')"]
    by simp
qed

text \<open>
  The claim C9 as it was worded, on an event that holds a tenant identifier under
  \<^verbatim>\<open>domainId\<close> beside a null \<^verbatim>\<open>DomainId\<close>: the environment default is used in its place,
  and with no default the control plane is queried although the event holds an
  identifier.
\<close>

theorem tenant_precedence_counterexample:
  "map_of null_domain_event (str ''domainId'') = Some (JStr (str ''d-2''))
   \<and> handler_domain_id null_domain_event (Some (str ''d-env'')) idle_world
       = (Inr (JStr (str ''d-env'')), idle_world)
   \<and> JStr (str ''d-env'') \<noteq> JStr (str ''d-2'')
   \<and> handler_domain_id null_domain_event None
        (idle_world\<lparr>list_domains_reply := Inl ClientError\<rparr>)
       = (Inl ClientError, emit EvListDomains (idle_world\<lparr>list_domains_reply := Inl ClientError\<rparr>))"
  by (simp add: null_domain_event_def handler_domain_id_def dict_get_def get_domain_id_def
        truthy_def list_domains_def)

section \<open>Waiting for the application: properties\<close>

declare poll_status.simps [simp del]

lemma request_answer:
  "http_script w = a # rest \<Longrightarrow>
   request ev jar w =
     Some (case a of Inl e \<Rightarrow> (Inl e, jar, emit ev (w\<lparr>http_script := rest\<rparr>))
           | Inr r \<Rightarrow> (Inr r, store_cookies (set_cookies r) jar, emit ev (w\<lparr>http_script := rest\<rparr>)))"
  by (simp add: request_def Let_def split: sum.splits)

lemma poll_status_step:
  assumes "app_status \<notin> {str ''InService'', str ''Terminated''}"
    and "http_script w = Inr r # rest"
  shows "poll_status base_url app_status jar w =
           poll_status base_url (resp_text r) (store_cookies (set_cookies r) jar)
             (w\<lparr>http_script := rest, trace := trace w @ polling base_url 1\<rparr>)"
  using assms
  by (subst poll_status.simps) (simp add: request_answer sleep_def emit_def polling_def)

lemma poll_status_done:
  "app_status \<in> {str ''InService'', str ''Terminated''} \<Longrightarrow>
   poll_status base_url app_status jar w = Some (Inr (app_status, jar), w)"
  by (subst poll_status.simps) auto

lemma polling_Suc: "polling b 1 @ polling b n = polling b (Suc n)"
  by (simp add: polling_def)

lemma poll_status_run:
  assumes "\<forall>r \<in> set rs. resp_text r \<notin> {str ''InService'', str ''Terminated''}"
    and "app_status \<notin> {str ''InService'', str ''Terminated''}"
    and "http_script w = map Inr rs @ Inr rT # rest"
    and "resp_text rT \<in> {str ''InService'', str ''Terminated''}"
  shows "poll_status base_url app_status jar w =
           Some (Inr (resp_text rT, jar_after jar (rs @ [rT])),
                 w\<lparr>http_script := rest,
                   trace := trace w @ polling base_url (Suc (length rs))\<rparr>)"
  using assms
proof (induction rs arbitrary: app_status jar w)
  case Nil
  then have "http_script w = Inr rT # rest"
    by simp
  from poll_status_step [OF Nil.prems(2) this] Nil.prems(4) show ?case
    by (simp add: poll_status_done jar_after_def)
next
  case (Cons r rs)
  let ?w1 = "w\<lparr>http_script := map Inr rs @ Inr rT # rest,
                trace := trace w @ polling base_url 1\<rparr>"
  from Cons.prems have r: "resp_text r \<notin> {str ''InService'', str ''Terminated''}"
    and rs: "\<forall>r \<in> set rs. resp_text r \<notin> {str ''InService'', str ''Terminated''}"
    and script: "http_script w = Inr r # map Inr rs @ Inr rT # rest"
    by simp_all
  have "poll_status base_url app_status jar w =
          poll_status base_url (resp_text r) (store_cookies (set_cookies r) jar) ?w1"
    by (rule poll_status_step [OF Cons.prems(2) script])
  also have "\<dots> = Some (Inr (resp_text rT, jar_after (store_cookies (set_cookies r) jar) (rs @ [rT])),
                 ?w1\<lparr>http_script := rest,
                   trace := trace ?w1 @ polling base_url (Suc (length rs))\<rparr>)"
    by (rule Cons.IH [OF rs r _ Cons.prems(4)]) simp
  finally show ?case
    using polling_Suc [of base_url "Suc (length rs)"]
    by (simp add: jar_after_def del: replicate.simps)
qed


lemma polling_unfold:
  "polling b (Suc n) = EvSleep 2 # EvGet (b @ str ''/app?appType=JupyterServer&appName=default'') # polling b n"
  by (simp add: polling_def)

lemma polling_0: "polling b 0 = []"
  by (simp add: polling_def)

lemma priming_not_polling: "EvGet (b @ str ''/jupyter/default'') \<notin> set (polling b n)"
  by (induction n) (simp_all add: polling_unfold polling_0 del: replicate.simps)

text \<open>
  C3. When the jar has no anti-CSRF cookie and the status requests are answered
  \<^verbatim>\<open>Pending\<close>, \<^verbatim>\<open>Pending\<close>, \<^verbatim>\<open>InService\<close>, the wait starts from \<^verbatim>\<open>Unknown\<close> and makes one
  sleep of 2 followed by one status request for each of the three answers (three
  rounds, since the third answer is read by a third request), then one GET of the base
  API address, and returns normally, having used these four answers and no more.
\<close>

theorem await_ready_three_cycles:
  assumes "map_of jar (str ''_xsrf'') = None"
    and "http_script w = Inr r1 # Inr r2 # Inr r3 # Inr r4 # rest"
    and "resp_text r1 = str ''Pending''" and "resp_text r2 = str ''Pending''"
    and "resp_text r3 = str ''InService''"
  shows "await_ready url jar w =
           Some (Inr (jar_after jar [r1, r2, r3, r4]),
                 w\<lparr>http_script := rest,
                   trace := trace w @
                     [EvSleep 2, EvGet (app_status_url url),
                      EvSleep 2, EvGet (app_status_url url),
                      EvSleep 2, EvGet (app_status_url url),
                      EvGet (api_base_url url)]\<rparr>)"
proof -
  have unknown: "str ''Unknown'' \<notin> {str ''InService'', str ''Terminated''}"
    by simp
  have pending: "\<forall>r \<in> set [r1, r2]. resp_text r \<notin> {str ''InService'', str ''Terminated''}"
    using assms(3,4) by simp
  have script: "http_script w = map Inr [r1, r2] @ Inr r3 # Inr r4 # rest"
    using assms(2) by simp
  have last: "resp_text r3 \<in> {str ''InService'', str ''Terminated''}"
    using assms(5) by simp
  note run = poll_status_run [OF pending unknown script last]
  show ?thesis
    using assms(1) assms(5)
    by (simp add: await_ready_def run request_answer emit_def jar_after_def
          polling_unfold polling_0 app_status_url_def Let_def del: replicate.simps)
qed


theorem await_ready_three_cycles_witness:
  "map_of ([] :: cookie_jar) (str ''_xsrf'') = None
   \<and> http_script starting_world =
       [Inr (plain (str ''Pending'')), Inr (plain (str ''Pending'')), Inr (plain (str ''InService'')),
        Inr (plain (str ''ok''))]
   \<and> resp_text (plain (str ''Pending'')) = str ''Pending''
   \<and> resp_text (plain (str ''InService'')) = str ''InService''
   \<and> await_ready studio_login_url [] starting_world =
       Some (Inr [],
             starting_world\<lparr>http_script := [],
               trace :=
                 [EvSleep 2, EvGet (app_status_url studio_login_url),
                  EvSleep 2, EvGet (app_status_url studio_login_url),
                  EvSleep 2, EvGet (app_status_url studio_login_url),
                  EvGet (api_base_url studio_login_url)]\<rparr>)"
proof -
  have jar: "map_of ([] :: cookie_jar) (str ''_xsrf'') = None"
    by simp
  have script: "http_script starting_world =
       Inr (plain (str ''Pending'')) # Inr (plain (str ''Pending'')) # Inr (plain (str ''InService''))
         # Inr (plain (str ''ok'')) # []"
    by (simp add: starting_world_def)
  have pending: "resp_text (plain (str ''Pending'')) = str ''Pending''"
    and in_service: "resp_text (plain (str ''InService'')) = str ''InService''"
    by (simp_all add: plain_def)
  have fresh: "trace starting_world = []"
    by (simp add: starting_world_def idle_world_def)
  have cookies: "jar_after [] [plain (str ''Pending''), plain (str ''Pending''), plain (str ''InService''), plain (str ''ok'')] = []"
    by (simp add: jar_after_def store_cookies_def plain_def)
  show ?thesis
    using await_ready_three_cycles [OF jar script pending pending in_service, of studio_login_url]
      script pending in_service fresh cookies
    by simp
qed

text \<open>
  The run of C3 on concrete answers: it returns normally with three sleeps and three
  status requests, so it does not make exactly two rounds.
\<close>

theorem await_ready_two_cycles_counterexample:
  "returned_normally (await_ready studio_login_url [] starting_world)
   \<and> count_list (trace_after (await_ready studio_login_url [] starting_world)) (EvSleep 2) = 3
   \<and> count_list (trace_after (await_ready studio_login_url [] starting_world))
         (EvGet (app_status_url studio_login_url)) = 3
   \<and> count_list (trace_after (await_ready studio_login_url [] starting_world)) (EvSleep 2) \<noteq> 2
   \<and> count_list (trace_after (await_ready studio_login_url [] starting_world))
         (EvGet (app_status_url studio_login_url)) \<noteq> 2"
  by code_simp

text \<open>
  C7. When the jar has no anti-CSRF cookie and a status request is answered
  \<^verbatim>\<open>Terminated\<close>, after any number of answers that are neither \<^verbatim>\<open>InService\<close> nor
  \<^verbatim>\<open>Terminated\<close>, the wait fails with the \<^verbatim>\<open>ValueError\<close> about the unusable status, an
  UnavailableError; the answers after that one are left unread and the calls made are
  the rounds of polling up to it, among which the GET of the base API address is not.
\<close>

theorem await_ready_terminated:
  assumes "map_of jar (str ''_xsrf'') = None"
    and "\<forall>r \<in> set rs. resp_text r \<notin> {str ''InService'', str ''Terminated''}"
    and "http_script w = map Inr rs @ Inr rT # rest"
    and "resp_text rT = str ''Terminated''"
  shows "await_ready url jar w =
           Some (Inl (ValueError (UnusableStatus (str ''Terminated''))),
                 w\<lparr>http_script := rest,
                   trace := trace w @
                     polling (fst (str_rpartition (str ''/'') (fst (str_partition (str ''?'') url))))
                       (Suc (length rs))\<rparr>)
       \<and> is_UnavailableError (ValueError (UnusableStatus (str ''Terminated'')))
       \<and> EvGet (api_base_url url) \<notin>
           set (polling (fst (str_rpartition (str ''/'') (fst (str_partition (str ''?'') url))))
                  (Suc (length rs)))"
proof -
  have unknown: "str ''Unknown'' \<notin> {str ''InService'', str ''Terminated''}"
    by simp
  have last: "resp_text rT \<in> {str ''InService'', str ''Terminated''}"
    using assms(4) by simp
  note run = poll_status_run [OF assms(2) unknown assms(3) last]
  show ?thesis
    using assms(1) assms(4) priming_not_polling
    by (simp add: await_ready_def run api_base_url_def del: replicate.simps)
qed

theorem await_ready_terminated_witness:
  "map_of ([] :: cookie_jar) (str ''_xsrf'') = None
   \<and> resp_text (plain (str ''Pending'')) \<notin> {str ''InService'', str ''Terminated''}
   \<and> http_script terminated_world =
       [Inr (plain (str ''Pending'')), Inr (plain (str ''Terminated'')), Inr (plain (str ''ok''))]
   \<and> resp_text (plain (str ''Terminated'')) = str ''Terminated''
   \<and> await_ready studio_login_url [] terminated_world =
       Some (Inl (ValueError (UnusableStatus (str ''Terminated''))),
             terminated_world\<lparr>http_script := [Inr (plain (str ''ok''))],
               trace :=
                 [EvSleep 2, EvGet (app_status_url studio_login_url),
                  EvSleep 2, EvGet (app_status_url studio_login_url)]\<rparr>)"
proof -
  have jar: "map_of ([] :: cookie_jar) (str ''_xsrf'') = None"
    by simp
  have pending: "\<forall>r \<in> set [plain (str ''Pending'')]. resp_text r \<notin> {str ''InService'', str ''Terminated''}"
    by (simp add: plain_def)
  have script: "http_script terminated_world =
       map Inr [plain (str ''Pending'')] @ Inr (plain (str ''Terminated'')) # [Inr (plain (str ''ok''))]"
    by (simp add: terminated_world_def)
  have terminated: "resp_text (plain (str ''Terminated'')) = str ''Terminated''"
    by (simp add: plain_def)
  have fresh: "trace terminated_world = []"
    by (simp add: terminated_world_def idle_world_def)
  show ?thesis
    using await_ready_terminated [OF jar pending script terminated, of studio_login_url]
      pending script terminated fresh
    by (simp add: polling_unfold polling_0 app_status_url_def del: replicate.simps)
qed

lemma store_cookies_absent:
  "map_of cs k = None \<Longrightarrow> map_of jar k = None \<Longrightarrow> map_of (store_cookies cs jar) k = None"
  unfolding store_cookies_def
proof (induction cs arbitrary: jar)
  case Nil
  then show ?case by simp
next
  case (Cons c cs)
  obtain k' v' where c: "c = (k', v')"
    by (cases c)
  with Cons.prems have "k' \<noteq> k" and "map_of cs k = None"
    by (auto split: if_splits)
  moreover from this Cons.prems(2) have "map_of (AList.update k' v' jar) k = None"
    by (simp add: update_conv')
  ultimately show ?case
    using Cons.IH c by simp
qed

lemma request_keeps_absent:
  assumes "request ev jar w = Some (outcome, jar', w')"
    and "\<forall>a \<in> set (http_script w). \<not> sets_xsrf a"
    and "map_of jar (str ''_xsrf'') = None"
  shows "map_of jar' (str ''_xsrf'') = None \<and> (\<forall>a \<in> set (http_script w'). \<not> sets_xsrf a)"
  using assms
  by (auto simp: request_def Let_def emit_def sets_xsrf_def store_cookies_absent
        split: list.splits sum.splits)

lemma poll_status_keeps_absent:
  "poll_status base_url app_status jar w = Some (Inr (app_status', jar'), w') \<Longrightarrow>
   \<forall>a \<in> set (http_script w). \<not> sets_xsrf a \<Longrightarrow>
   map_of jar (str ''_xsrf'') = None \<Longrightarrow>
   map_of jar' (str ''_xsrf'') = None \<and> (\<forall>a \<in> set (http_script w'). \<not> sets_xsrf a)"
proof (induction base_url app_status jar w rule: poll_status.induct)
  case (1 base_url app_status jar w)
  show ?case
  proof (cases "app_status \<in> {str ''InService'', str ''Terminated''}")
    case True
    with "1.prems" show ?thesis
      by (simp add: poll_status_done)
  next
    case False
    let ?ev = "EvGet (base_url @ str ''/app?appType=JupyterServer&appName=default'')"
    from False "1.prems"(1) obtain r jar1 w1 where
      req: "request ?ev jar (sleep 2 w) = Some (Inr r, jar1, w1)"
      and rec: "poll_status base_url (resp_text r) jar1 w1 = Some (Inr (app_status', jar'), w')"
      by (subst (asm) poll_status.simps) (auto split: option.splits sum.splits)
    have "\<forall>a \<in> set (http_script (sleep 2 w)). \<not> sets_xsrf a"
      using "1.prems"(2) by (simp add: sleep_def emit_def)
    from request_keeps_absent [OF req this "1.prems"(3)]
    have "map_of jar1 (str ''_xsrf'') = None" and "\<forall>a \<in> set (http_script w1). \<not> sets_xsrf a"
      by simp_all
    with "1.IH" [OF False req refl refl refl rec] show ?thesis
      by simp
  qed
qed


lemma login_keeps_absent:
  assumes "login domain_id user w = Some (Inr (url, jar), w1)"
    and "\<forall>a \<in> set (http_script w). \<not> sets_xsrf a"
  shows "map_of jar (str ''_xsrf'') = None \<and> (\<forall>a \<in> set (http_script w1). \<not> sets_xsrf a)"
proof -
  from assms(1) obtain r where
    "request (EvGet url) [] (emit (EvPresign domain_id user) w) = Some (Inr r, jar, w1)"
    by (auto simp: login_def Let_def split: sum.splits option.splits)
  moreover have "\<forall>a \<in> set (http_script (emit (EvPresign domain_id user) w)). \<not> sets_xsrf a"
    using assms(2) by (simp add: emit_def)
  ultimately show ?thesis
    using request_keeps_absent by fastforce
qed

lemma await_ready_keeps_absent:
  assumes "await_ready url jar w = Some (Inr jar', w')"
    and "\<forall>a \<in> set (http_script w). \<not> sets_xsrf a"
    and "map_of jar (str ''_xsrf'') = None"
  shows "map_of jar' (str ''_xsrf'') = None"
proof -
  let ?base = "fst (str_rpartition (str ''/'') (fst (str_partition (str ''?'') url)))"
  from assms(1,3) obtain jar1 w1 r where
    poll: "poll_status ?base (str ''Unknown'') jar w = Some (Inr (str ''InService'', jar1), w1)"
    and req: "request (EvGet (api_base_url url)) jar1 w1 = Some (Inr r, jar', w')"
    by (auto simp: await_ready_def Let_def split: option.splits sum.splits if_splits)
  from poll_status_keeps_absent [OF poll assms(2,3)]
  have "map_of jar1 (str ''_xsrf'') = None" and "\<forall>a \<in> set (http_script w1). \<not> sets_xsrf a"
    by simp_all
  with request_keeps_absent [OF req] show ?thesis
    by simp
qed

text \<open>
  C10. Terminal creation reads \<^verbatim>\<open>reqsess.cookies["_xsrf"]\<close> without a test. When no
  response of the run carries the cookie and the login and the wait for the application
  have ended normally, the run ends with \<^verbatim>\<open>KeyError\<close> for the key \<^verbatim>\<open>_xsrf\<close>, in the world
  the wait left: the POST that creates the terminal is not made.
\<close>

theorem missing_xsrf_key_error:
  assumes "\<forall>a \<in> set (http_script w). \<not> sets_xsrf a"
    and "login domain_id user_profile_name w = Some (Inr (url, jar), w1)"
    and "await_ready url jar w1 = Some (Inr jar2, w2)"
  shows "run_commands domain_id user_profile_name w = Some (Inl (KeyError (JStr (str ''_xsrf''))), w2)
       \<and> create_terminal url jar2 w2 = Some (Inl (KeyError (JStr (str ''_xsrf''))), w2)"
proof -
  from login_keeps_absent [OF assms(2,1)]
  have "map_of jar (str ''_xsrf'') = None" and "\<forall>a \<in> set (http_script w1). \<not> sets_xsrf a"
    by simp_all
  with await_ready_keeps_absent [OF assms(3)] have "map_of jar2 (str ''_xsrf'') = None"
    by simp
  then have "create_terminal url jar2 w2 = Some (Inl (KeyError (JStr (str ''_xsrf''))), w2)"
    by (simp add: create_terminal_def)
  then show ?thesis
    using assms(2,3) by (simp add: run_commands_def)
qed


theorem missing_xsrf_key_error_witness:
  "\<not> sets_xsrf (Inr (plain (str ''<html>''))) \<and> \<not> sets_xsrf (Inr (plain (str ''Pending'')))
   \<and> \<not> sets_xsrf (Inr (plain (str ''InService''))) \<and> \<not> sets_xsrf (Inr (plain (str ''ok'')))
   \<and> login (JStr (str ''d-abc'')) (JStr (str ''u1'')) xsrf_less_world =
       Some (Inr (studio_login_url, []),
             xsrf_less_world\<lparr>http_script :=
                 [Inr (plain (str ''Pending'')), Inr (plain (str ''InService'')), Inr (plain (str ''ok''))],
               trace := [EvPresign (JStr (str ''d-abc'')) (JStr (str ''u1'')), EvGet studio_login_url]\<rparr>)
   \<and> await_ready studio_login_url []
        (xsrf_less_world\<lparr>http_script :=
            [Inr (plain (str ''Pending'')), Inr (plain (str ''InService'')), Inr (plain (str ''ok''))],
          trace := [EvPresign (JStr (str ''d-abc'')) (JStr (str ''u1'')), EvGet studio_login_url]\<rparr>) =
       Some (Inr [],
             xsrf_less_world\<lparr>http_script := [],
               trace :=
                 [EvPresign (JStr (str ''d-abc'')) (JStr (str ''u1'')), EvGet studio_login_url,
                  EvSleep 2, EvGet (app_status_url studio_login_url),
                  EvSleep 2, EvGet (app_status_url studio_login_url),
                  EvGet (api_base_url studio_login_url)]\<rparr>)
   \<and> run_commands (JStr (str ''d-abc'')) (JStr (str ''u1'')) xsrf_less_world =
       Some (Inl (KeyError (JStr (str ''_xsrf''))),
             xsrf_less_world\<lparr>http_script := [],
               trace :=
                 [EvPresign (JStr (str ''d-abc'')) (JStr (str ''u1'')), EvGet studio_login_url,
                  EvSleep 2, EvGet (app_status_url studio_login_url),
                  EvSleep 2, EvGet (app_status_url studio_login_url),
                  EvGet (api_base_url studio_login_url)]\<rparr>)"
proof -
  let ?w1 = "xsrf_less_world\<lparr>http_script :=
                 [Inr (plain (str ''Pending'')), Inr (plain (str ''InService'')), Inr (plain (str ''ok''))],
               trace := [EvPresign (JStr (str ''d-abc'')) (JStr (str ''u1'')), EvGet studio_login_url]\<rparr>"
  let ?w2 = "xsrf_less_world\<lparr>http_script := [],
               trace :=
                 [EvPresign (JStr (str ''d-abc'')) (JStr (str ''u1'')), EvGet studio_login_url,
                  EvSleep 2, EvGet (app_status_url studio_login_url),
                  EvSleep 2, EvGet (app_status_url studio_login_url),
                  EvGet (api_base_url studio_login_url)]\<rparr>"
  have quiet: "\<not> sets_xsrf (Inr (plain (str ''<html>'')))" "\<not> sets_xsrf (Inr (plain (str ''Pending'')))"
    "\<not> sets_xsrf (Inr (plain (str ''InService'')))" "\<not> sets_xsrf (Inr (plain (str ''ok'')))"
    by (simp_all add: sets_xsrf_def plain_def)
  then have script: "\<forall>a \<in> set (http_script xsrf_less_world). \<not> sets_xsrf a"
    by (simp add: xsrf_less_world_def)
  have logged_in: "login (JStr (str ''d-abc'')) (JStr (str ''u1'')) xsrf_less_world =
      Some (Inr (studio_login_url, []), ?w1)"
    by (simp add: login_def xsrf_less_world_def idle_world_def request_def emit_def
          store_cookies_def plain_def)
  have ready: "await_ready studio_login_url [] ?w1 = Some (Inr [], ?w2)"
    by (simp add: await_ready_def poll_status.simps xsrf_less_world_def idle_world_def
          request_def emit_def sleep_def store_cookies_def plain_def app_status_url_def Let_def)
  show ?thesis
    using missing_xsrf_key_error [OF script logged_in ready] quiet logged_in ready
    by simp
qed

section \<open>The command driver: properties\<close>

declare await_setup.simps [simp del]
declare await_prompt.simps [simp del]

lemma await_setup_skipped: "await_setup JNull w = Some (Inr JNull, w)"
  by (subst await_setup.simps) simp

lemma match_here_search: "match_here decimal p s \<Longrightarrow> search (decimal, p) (pre @ s)"
proof (induction pre)
  case Nil
  then show ?case by (cases s) simp_all
next
  case (Cons c pre)
  then show ?case by simp
qed

lemma prompt_5_1_16:
  "ascii_digits decimal \<Longrightarrow> match_here decimal PROMPT_REGEX (str ''bash-5.1.16$ \<newline>'' @ post)"
  by (simp add: PROMPT_REGEX_def at_eol_def str_def ascii_digits_def)

lemma prompt_4_2:
  "ascii_digits decimal \<Longrightarrow> match_here decimal PROMPT_REGEX (str ''bash-4.2$ \<newline>'' @ post)"
  by (simp add: PROMPT_REGEX_def at_eol_def str_def ascii_digits_def)

lemma prompt_5_1_16_end:
  "ascii_digits decimal \<Longrightarrow> match_here decimal PROMPT_REGEX (str ''bash-5.1.16$ '')"
  by (simp add: PROMPT_REGEX_def at_eol_def str_def ascii_digits_def)

lemma prompt_4_2_end:
  "ascii_digits decimal \<Longrightarrow> match_here decimal PROMPT_REGEX (str ''bash-4.2$ '')"
  by (simp add: PROMPT_REGEX_def at_eol_def str_def ascii_digits_def)

lemma prompt_5_1_end:
  "ascii_digits decimal \<Longrightarrow> match_here decimal PROMPT_REGEX (str ''bash-5.1$ '')"
  by (simp add: PROMPT_REGEX_def at_eol_def str_def ascii_digits_def)

lemma not_prompt: "\<not> search (decimal, PROMPT_REGEX) (str ''bash-5.1$ computing'')"
  by (simp add: PROMPT_REGEX_def at_eol_def str_def)

lemma ascii_digits_unicode_14: "ascii_digits unicode_14_decimal"
  by (simp add: ascii_digits_def unicode_14_decimal_def)

text \<open>
  The table matters: with the table of Unicode 14 the pattern is found in a prompt
  whose version is written in Arabic-Indic digits (\<^verbatim>\<open>"bash-\u0663.\u0661$ "\<close>), as
  Python finds it.
\<close>

lemma prompt_arabic_indic:
  "search (re_compile unicode_14_decimal PROMPT_REGEX)
     (str ''bash-'' @ [0x0663] @ str ''.'' @ [0x0661] @ str ''$ '')"
  by (simp add: re_compile_def PROMPT_REGEX_def at_eol_def str_def unicode_14_decimal_def)

lemma prompt_frame_is_prompt:
  "ascii_digits decimal \<Longrightarrow> prompt_message (re_compile decimal PROMPT_REGEX) prompt_frame"
  using match_here_search [OF prompt_5_1_end, of decimal "[]"]
  by (simp add: prompt_message_def prompt_frame_def stream_message_def re_compile_def)

lemma await_prompt_Nil: "ws_inbound w = [] \<Longrightarrow> await_prompt p w = None"
  by (subst await_prompt.simps) (simp add: recv_def)

lemma await_prompt_Cons:
  assumes "ws_inbound w = f # rest"
  shows "await_prompt p w =
     (case f of
        Raises e \<Rightarrow> Some (Inl e, emit (EvWsRecv f) (w\<lparr>ws_inbound := rest\<rparr>))
      | Malformed \<Rightarrow> Some (Inl JSONDecodeError, emit (EvWsRecv f) (w\<lparr>ws_inbound := rest\<rparr>))
      | Message res \<Rightarrow>
          (case getitem res 0 of
             Inl e \<Rightarrow> Some (Inl e, emit (EvWsRecv f) (w\<lparr>ws_inbound := rest\<rparr>))
           | Inr res0 \<Rightarrow>
               (case getitem res 1 of
                  Inl e \<Rightarrow> Some (Inl e, emit (EvWsRecv f) (w\<lparr>ws_inbound := rest\<rparr>))
                | Inr res1 \<Rightarrow>
                    if res0 = JStr (str ''stdout'')
                    then (case py_search p res1 of
                            Inl e \<Rightarrow> Some (Inl e, emit (EvWsRecv f) (w\<lparr>ws_inbound := rest\<rparr>))
                          | Inr found \<Rightarrow>
                              if found then Some (Inr (), emit (EvWsRecv f) (w\<lparr>ws_inbound := rest\<rparr>))
                              else await_prompt p (emit (EvWsRecv f) (w\<lparr>ws_inbound := rest\<rparr>)))
                    else await_prompt p (emit (EvWsRecv f) (w\<lparr>ws_inbound := rest\<rparr>)))))"
  by (cases f; hypsubst; subst await_prompt.simps; simp add: recv_def Let_def assms)

lemma await_prompt_on_prompt:
  assumes "ws_inbound w = f # rest" and "prompt_message p f"
  shows "await_prompt p w = Some (Inr (), emit (EvWsRecv f) (w\<lparr>ws_inbound := rest\<rparr>))"
  using assms(2)
  by (auto simp: await_prompt_Cons [OF assms(1)] prompt_message_def py_search_def
        split: frame.splits sum.splits json.splits)

lemma await_prompt_on_other:
  assumes "ws_inbound w = f # rest" and "\<not> prompt_message p f"
    and "await_prompt p w = Some (Inr (), w')"
  shows "await_prompt p (emit (EvWsRecv f) (w\<lparr>ws_inbound := rest\<rparr>)) = Some (Inr (), w')"
  using assms(2,3)
  by (auto simp: await_prompt_Cons [OF assms(1)] prompt_message_def py_search_def
        split: frame.splits sum.splits json.splits if_splits)

lemma await_prompt_advances:
  assumes "await_prompt p w = Some (Inr (), w')" and "ws_inbound w = inbound"
  shows "\<exists>fs f. inbound = fs @ f # ws_inbound w' \<and> prompt_message p f
           \<and> (\<forall>g \<in> set fs. \<not> prompt_message p g)
           \<and> trace w' = trace w @ map EvWsRecv (fs @ [f])"
  using assms
proof (induction inbound arbitrary: w)
  case Nil
  then show ?case
    by (simp add: await_prompt_Nil)
next
  case (Cons f rest)
  let ?w1 = "emit (EvWsRecv f) (w\<lparr>ws_inbound := rest\<rparr>)"
  show ?case
  proof (cases "prompt_message p f")
    case True
    with await_prompt_on_prompt [OF Cons.prems(2) True] Cons.prems(1)
    have "w' = ?w1"
      by simp
    with True have "f # rest = [] @ f # ws_inbound w' \<and> prompt_message p f
        \<and> (\<forall>g \<in> set []. \<not> prompt_message p g)
        \<and> trace w' = trace w @ map EvWsRecv ([] @ [f])"
      by (simp add: emit_def)
    then show ?thesis
      by blast
  next
    case False
    from await_prompt_on_other [OF Cons.prems(2) False Cons.prems(1)]
    have later: "await_prompt p ?w1 = Some (Inr (), w')" .
    have "ws_inbound ?w1 = rest"
      by (simp add: emit_def)
    from Cons.IH [OF later this] obtain fs g where
      "rest = fs @ g # ws_inbound w'" and "prompt_message p g"
      and "\<forall>h \<in> set fs. \<not> prompt_message p h"
      and "trace w' = trace ?w1 @ map EvWsRecv (fs @ [g])"
      by blast
    with False have "f # rest = (f # fs) @ g # ws_inbound w' \<and> prompt_message p g
        \<and> (\<forall>h \<in> set (f # fs). \<not> prompt_message p h)
        \<and> trace w' = trace w @ map EvWsRecv ((f # fs) @ [g])"
      by (simp add: emit_def)
    then show ?thesis
      by blast
  qed
qed


lemma await_prompt_skip:
  assumes "ws_inbound w = f # rest" and "\<not> prompt_message p f"
    and "await_prompt p w = Some (outcome, w')"
  shows "(\<exists>e. outcome = Inl e) \<and> w' = emit (EvWsRecv f) (w\<lparr>ws_inbound := rest\<rparr>)
       \<or> await_prompt p (emit (EvWsRecv f) (w\<lparr>ws_inbound := rest\<rparr>)) = Some (outcome, w')"
  using assms(2,3)
  by (auto simp: await_prompt_Cons [OF assms(1)] prompt_message_def py_search_def
        split: frame.splits sum.splits json.splits if_splits)

lemma await_prompt_fails:
  assumes "await_prompt p w = Some (Inl e, w')" and "ws_inbound w = inbound"
  shows "\<exists>fs. trace w' = trace w @ map EvWsRecv fs \<and> (\<forall>h \<in> set fs. \<not> prompt_message p h)"
  using assms
proof (induction inbound arbitrary: w)
  case Nil
  then show ?case
    by (simp add: await_prompt_Nil)
next
  case (Cons f rest)
  let ?w1 = "emit (EvWsRecv f) (w\<lparr>ws_inbound := rest\<rparr>)"
  have here: "trace ?w1 = trace w @ [EvWsRecv f]" and left: "ws_inbound ?w1 = rest"
    by (simp_all add: emit_def)
  have other: "\<not> prompt_message p f"
  proof
    assume "prompt_message p f"
    from await_prompt_on_prompt [OF Cons.prems(2) this] Cons.prems(1) show False
      by simp
  qed
  from await_prompt_skip [OF Cons.prems(2) other Cons.prems(1)]
  consider "w' = ?w1" | "await_prompt p ?w1 = Some (Inl e, w')"
    by blast
  then show ?case
  proof cases
    case 1
    with here other have "trace w' = trace w @ map EvWsRecv [f]
        \<and> (\<forall>h \<in> set [f]. \<not> prompt_message p h)"
      by simp
    then show ?thesis by blast
  next
    case 2
    from Cons.IH [OF 2 left] obtain fs where
      "trace w' = trace ?w1 @ map EvWsRecv fs" and "\<forall>h \<in> set fs. \<not> prompt_message p h"
      by blast
    with here other have "trace w' = trace w @ map EvWsRecv (f # fs)
        \<and> (\<forall>h \<in> set (f # fs). \<not> prompt_message p h)"
      by simp
    then show ?thesis by blast
  qed
qed

lemma send_keeps_inbound:
  "send msg w = Some (outcome, w') \<Longrightarrow>
   ws_inbound w' = ws_inbound w \<and> trace w' = trace w @ [EvWsSend msg]"
  by (auto simp: send_def emit_def Let_def split: list.splits option.splits)

text \<open>
  One round of the driver: either the next round starts, after the first prompt message
  was read, or the run ends in this round with an exception and no prompt message was
  read.
\<close>

lemma send_commands_round:
  assumes "send_commands p (c # cs) w = Some (outcome, w')"
  shows "(\<exists>fs g w2. ws_inbound w = fs @ g # ws_inbound w2 \<and> prompt_message p g
            \<and> (\<forall>h \<in> set fs. \<not> prompt_message p h)
            \<and> trace w2 = trace w @ command_round c (fs @ [g])
            \<and> send_commands p cs w2 = Some (outcome, w'))
       \<or> (\<exists>e fs. outcome = Inl e \<and> trace w' = trace w @ command_round c fs
            \<and> (\<forall>h \<in> set fs. \<not> prompt_message p h))"
proof -
  let ?msg = "JArr [JStr (str ''stdin''), JStr (c @ str ''\<newline>'')]"
  from assms obtain r1 w1 where sent: "send ?msg w = Some (r1, w1)"
    by (auto split: option.splits)
  from send_keeps_inbound [OF sent]
  have inb: "ws_inbound w1 = ws_inbound w" and t1: "trace w1 = trace w @ [EvWsSend ?msg]"
    by simp_all
  show ?thesis
  proof (cases r1)
    case (Inl e)
    with assms sent have "outcome = Inl e" and "w' = w1"
      by simp_all
    with t1 have "outcome = Inl e \<and> trace w' = trace w @ command_round c []
        \<and> (\<forall>h \<in> set []. \<not> prompt_message p h)"
      by (simp add: command_round_def stdin_message_def)
    then show ?thesis by blast
  next
    case (Inr u)
    with assms sent obtain r2 w2 where waited: "await_prompt p w1 = Some (r2, w2)"
      by (auto split: option.splits)
    show ?thesis
    proof (cases r2)
      case (Inl e)
      with assms sent waited \<open>r1 = Inr u\<close> have out: "outcome = Inl e" and "w' = w2"
        by simp_all
      from waited Inl have "await_prompt p w1 = Some (Inl e, w2)"
        by simp
      from await_prompt_fails [OF this refl] obtain fs where
        "trace w2 = trace w1 @ map EvWsRecv fs" and "\<forall>h \<in> set fs. \<not> prompt_message p h"
        by blast
      with t1 out \<open>w' = w2\<close> have "outcome = Inl e \<and> trace w' = trace w @ command_round c fs
          \<and> (\<forall>h \<in> set fs. \<not> prompt_message p h)"
        by (simp add: command_round_def stdin_message_def)
      then show ?thesis by blast
    next
      case (Inr u2)
      with assms sent waited \<open>r1 = Inr u\<close>
      have rest: "send_commands p cs w2 = Some (outcome, w')"
        by simp
      from waited Inr have "await_prompt p w1 = Some (Inr (), w2)"
        by simp
      from await_prompt_advances [OF this refl] obtain fs g where
        "ws_inbound w1 = fs @ g # ws_inbound w2" and "prompt_message p g"
        and "\<forall>h \<in> set fs. \<not> prompt_message p h"
        and "trace w2 = trace w1 @ map EvWsRecv (fs @ [g])"
        by blast
      with inb t1 rest have "ws_inbound w = fs @ g # ws_inbound w2 \<and> prompt_message p g
            \<and> (\<forall>h \<in> set fs. \<not> prompt_message p h)
            \<and> trace w2 = trace w @ command_round c (fs @ [g])
            \<and> send_commands p cs w2 = Some (outcome, w')"
        by (simp add: command_round_def stdin_message_def)
      then show ?thesis by blast
    qed
  qed
qed

lemma send_commands_completes:
  "send_commands p cs w = Some (Inr (), w') \<Longrightarrow>
   \<exists>fss. length fss = length cs \<and> list_all (ends_at_first_prompt p) fss
     \<and> trace w' = trace w @ concat (map2 command_round cs fss)"
proof (induction cs arbitrary: w)
  case Nil
  then have "length [] = length ([] :: pystr list) \<and> list_all (ends_at_first_prompt p) []
      \<and> trace w' = trace w @ concat (map2 command_round [] [])"
    by simp
  then show ?case by blast
next
  case (Cons c cs)
  from send_commands_round [OF Cons.prems] obtain fs g w2 where
    g: "prompt_message p g" and fs: "\<forall>h \<in> set fs. \<not> prompt_message p h"
    and t2: "trace w2 = trace w @ command_round c (fs @ [g])"
    and rest: "send_commands p cs w2 = Some (Inr (), w')"
    by blast
  from Cons.IH [OF rest] obtain fss where
    len: "length fss = length cs" and all: "list_all (ends_at_first_prompt p) fss"
    and t: "trace w' = trace w2 @ concat (map2 command_round cs fss)"
    by blast
  from g fs have "ends_at_first_prompt p (fs @ [g])"
    by (simp add: ends_at_first_prompt_def)
  with len all t t2
  have "length ((fs @ [g]) # fss) = length (c # cs)
      \<and> list_all (ends_at_first_prompt p) ((fs @ [g]) # fss)
      \<and> trace w' = trace w @ concat (map2 command_round (c # cs) ((fs @ [g]) # fss))"
    by simp
  then show ?case by blast
qed

lemma send_commands_on_prompt:
  assumes "ws_sends w = None # sends" and "ws_inbound w = g # rest" and "prompt_message p g"
  shows "send_commands p (c # cs) w =
           send_commands p cs
             (w\<lparr>ws_sends := sends, ws_inbound := rest,
                trace := trace w @ command_round c [g]\<rparr>)"
proof -
  let ?w1 = "emit (EvWsSend (JArr [JStr (str ''stdin''), JStr (c @ str ''\<newline>'')]))
               (w\<lparr>ws_sends := sends\<rparr>)"
  have "ws_inbound ?w1 = g # rest"
    using assms(2) by (simp add: emit_def)
  from await_prompt_on_prompt [OF this assms(3)] show ?thesis
    using assms(1)
    by (simp add: send_def Let_def emit_def command_round_def stdin_message_def)
qed

lemma run_script_completes:
  assumes "run_script w = Some (Inr (), w')"
  shows "\<exists>fss. length fss = length COMMAND_SCRIPT
     \<and> list_all (ends_at_first_prompt (re_compile (unicode_decimal w) PROMPT_REGEX)) fss
     \<and> trace w' = trace w @ concat (map2 command_round COMMAND_SCRIPT fss)"
  using assms send_commands_completes
  by (simp add: run_script_def await_setup_skipped Let_def)

lemma noisy_run:
  "await_prompt (re_compile unicode_14_decimal PROMPT_REGEX) noisy_world =
     Some (Inr (),
           noisy_world\<lparr>ws_inbound := [stream_message (str ''stdout'') (str ''later'')],
             trace :=
               map EvWsRecv
                 [stream_message (str ''stdout'') (str ''hi\<newline>''),
                  stream_message (str ''stderr'') (str ''bash-5.1$ ''),
                  stream_message (str ''stdout'') (str ''bash-5.1$ computing''),
                  stream_message (str ''stdout'') (str ''total 0\<newline>bash-5.1.16$ '')]\<rparr>)"
  by (simp add: await_prompt.simps noisy_world_def idle_world_def recv_def emit_def
        stream_message_def py_search_def PROMPT_REGEX_def at_eol_def re_compile_def
        unicode_14_decimal_def str_def)

lemmas driver_unfold =
  command_driver_def run_script_def await_setup_skipped await_prompt.simps send_def recv_def
  emit_def close_def Let_def py_search_def PROMPT_REGEX_def at_eol_def COMMAND_SCRIPT_def
  idle_world_def stream_message_def stdin_message_def prompt_frame_def re_compile_def
  unicode_14_decimal_def str_def

text \<open>
  C2. The claim expects the driver to read messages until one of the stream \<^verbatim>\<open>setup\<close>
  arrives, and to send no command before. In the source the wait is
  \<^verbatim>\<open>while setup is not None\<close> entered with \<^verbatim>\<open>setup = None\<close>: it reads no message and
  ends at once, in any world. On a channel that delivers a login banner, then the setup
  message, then the prompts, the first call of the driver is the send of the first
  command, made before either message is read; the setup message is read later by the
  prompt loop, as any other output.
\<close>

theorem setup_wait_skipped:
  "await_setup JNull w = Some (Inr JNull, w)
   \<and> command_driver attached_world =
       Some (Inr (),
             attached_world\<lparr>ws_inbound := [], ws_sends := [],
               trace :=
                 [EvWsSend (stdin_message (COMMAND_SCRIPT ! 0)),
                  EvWsRecv (stream_message (str ''stdout'') (str ''Last login'')),
                  EvWsRecv (Message (JArr [JStr (str ''setup''), JObj []])),
                  EvWsRecv (stream_message (str ''stdout'') (str ''bash-5.1$ '')),
                  EvWsSend (stdin_message (COMMAND_SCRIPT ! 1)),
                  EvWsRecv (stream_message (str ''stdout'') (str ''pwd && ls\<newline>/root\<newline>bash-5.1$ '')),
                  EvWsSend (stdin_message (COMMAND_SCRIPT ! 2)),
                  EvWsRecv (stream_message (str ''stderr'') (str ''bash-5.1$ '')),
                  EvWsRecv (stream_message (str ''stdout'') (str ''done\<newline>bash-5.1$ '')),
                  EvWsClose]\<rparr>)"
  by (simp add: driver_unfold attached_world_def)

text \<open>
  C4. For every table of decimal digits that holds the ASCII digits, the compiled pattern
  is found in \<^verbatim>\<open>bash-5.1.16$ \<close> and in \<^verbatim>\<open>bash-4.2$ \<close>, also when either stands anywhere
  in a payload before a newline or at the end of the payload, and it is not found in
  \<^verbatim>\<open>bash-5.1$ computing\<close>. The prompt loop ends with a value on a frame that is a message
  of the stream \<^verbatim>\<open>stdout\<close> whose payload the pattern is found in, and only on such a
  frame: the last frame it read is one, and no frame it read before is. So does the
  driver: a round sends its command and reads frames; the next round starts right after
  the first such frame and not before, and a round that reads none ends the run with
  an exception. A run of the whole script that returns normally is, command by command,
  the send of the command followed by the frames read up to the first such frame.
\<close>

theorem prompt_pattern_and_advance:
  assumes "ascii_digits decimal"
  shows "search (re_compile decimal PROMPT_REGEX) (str ''bash-5.1.16$ '')
   \<and> search (re_compile decimal PROMPT_REGEX) (str ''bash-4.2$ '')
   \<and> search (re_compile decimal PROMPT_REGEX) (pre @ str ''bash-5.1.16$ \<newline>'' @ post)
   \<and> search (re_compile decimal PROMPT_REGEX) (pre @ str ''bash-4.2$ \<newline>'' @ post)
   \<and> search (re_compile decimal PROMPT_REGEX) (pre @ str ''bash-5.1.16$ '')
   \<and> search (re_compile decimal PROMPT_REGEX) (pre @ str ''bash-4.2$ '')
   \<and> \<not> search (re_compile decimal PROMPT_REGEX) (str ''bash-5.1$ computing'')
   \<and> (ws_inbound w = f # rest \<and> prompt_message p f \<longrightarrow>
        await_prompt p w = Some (Inr (), emit (EvWsRecv f) (w\<lparr>ws_inbound := rest\<rparr>)))
   \<and> (await_prompt p w = Some (Inr (), w') \<longrightarrow>
        (\<exists>fs g. ws_inbound w = fs @ g # ws_inbound w' \<and> prompt_message p g
           \<and> (\<forall>h \<in> set fs. \<not> prompt_message p h)
           \<and> trace w' = trace w @ map EvWsRecv (fs @ [g])))
   \<and> (ws_sends w = None # sends \<and> ws_inbound w = f # rest \<and> prompt_message p f \<longrightarrow>
        send_commands p (c # cs) w =
          send_commands p cs
            (w\<lparr>ws_sends := sends, ws_inbound := rest,
               trace := trace w @ command_round c [f]\<rparr>))
   \<and> (send_commands p (c # cs) w = Some (outcome, w') \<longrightarrow>
        (\<exists>fs g w2. ws_inbound w = fs @ g # ws_inbound w2 \<and> prompt_message p g
            \<and> (\<forall>h \<in> set fs. \<not> prompt_message p h)
            \<and> trace w2 = trace w @ command_round c (fs @ [g])
            \<and> send_commands p cs w2 = Some (outcome, w'))
        \<or> (\<exists>e fs. outcome = Inl e \<and> trace w' = trace w @ command_round c fs
            \<and> (\<forall>h \<in> set fs. \<not> prompt_message p h)))
   \<and> (run_script w = Some (Inr (), w') \<longrightarrow>
        (\<exists>fss. length fss = length COMMAND_SCRIPT
           \<and> list_all (ends_at_first_prompt (re_compile (unicode_decimal w) PROMPT_REGEX)) fss
           \<and> trace w' = trace w @ concat (map2 command_round COMMAND_SCRIPT fss)))"
proof -
  let ?P = "re_compile decimal PROMPT_REGEX"
  have "search ?P ([] @ str ''bash-5.1.16$ '')" and "search ?P ([] @ str ''bash-4.2$ '')"
    unfolding re_compile_def
    by (rule match_here_search, rule prompt_5_1_16_end, rule assms)
       (rule match_here_search, rule prompt_4_2_end, rule assms)
  then have whole: "search ?P (str ''bash-5.1.16$ '')" "search ?P (str ''bash-4.2$ '')"
    by simp_all
  have line: "search ?P (pre @ str ''bash-5.1.16$ \<newline>'' @ post)"
    "search ?P (pre @ str ''bash-4.2$ \<newline>'' @ post)"
    unfolding re_compile_def
    by (rule match_here_search, rule prompt_5_1_16, rule assms)
       (rule match_here_search, rule prompt_4_2, rule assms)
  have tail: "search ?P (pre @ str ''bash-5.1.16$ '')" "search ?P (pre @ str ''bash-4.2$ '')"
    unfolding re_compile_def
    by (rule match_here_search, rule prompt_5_1_16_end, rule assms)
       (rule match_here_search, rule prompt_4_2_end, rule assms)
  have other: "\<not> search ?P (str ''bash-5.1$ computing'')"
    by (simp add: re_compile_def not_prompt)
  have on_prompt: "ws_inbound w = f # rest \<and> prompt_message p f \<longrightarrow>
        await_prompt p w = Some (Inr (), emit (EvWsRecv f) (w\<lparr>ws_inbound := rest\<rparr>))"
    using await_prompt_on_prompt by blast
  have only_prompt: "await_prompt p w = Some (Inr (), w') \<longrightarrow>
        (\<exists>fs g. ws_inbound w = fs @ g # ws_inbound w' \<and> prompt_message p g
           \<and> (\<forall>h \<in> set fs. \<not> prompt_message p h)
           \<and> trace w' = trace w @ map EvWsRecv (fs @ [g]))"
    using await_prompt_advances [OF _ refl] by blast
  have next_round: "ws_sends w = None # sends \<and> ws_inbound w = f # rest \<and> prompt_message p f \<longrightarrow>
        send_commands p (c # cs) w =
          send_commands p cs
            (w\<lparr>ws_sends := sends, ws_inbound := rest,
               trace := trace w @ command_round c [f]\<rparr>)"
    using send_commands_on_prompt by blast
  have round: "send_commands p (c # cs) w = Some (outcome, w') \<longrightarrow>
        (\<exists>fs g w2. ws_inbound w = fs @ g # ws_inbound w2 \<and> prompt_message p g
            \<and> (\<forall>h \<in> set fs. \<not> prompt_message p h)
            \<and> trace w2 = trace w @ command_round c (fs @ [g])
            \<and> send_commands p cs w2 = Some (outcome, w'))
        \<or> (\<exists>e fs. outcome = Inl e \<and> trace w' = trace w @ command_round c fs
            \<and> (\<forall>h \<in> set fs. \<not> prompt_message p h))"
    using send_commands_round by blast
  have script: "run_script w = Some (Inr (), w') \<longrightarrow>
        (\<exists>fss. length fss = length COMMAND_SCRIPT
           \<and> list_all (ends_at_first_prompt (re_compile (unicode_decimal w) PROMPT_REGEX)) fss
           \<and> trace w' = trace w @ concat (map2 command_round COMMAND_SCRIPT fss))"
    using run_script_completes by blast
  from whole line tail other on_prompt only_prompt next_round round script show ?thesis
    by (intro conjI)
qed

theorem prompt_pattern_and_advance_witness:
  "ascii_digits unicode_14_decimal
   \<and> ws_inbound prompt_world = prompt_frame # [prompt_frame, prompt_frame]
   \<and> ws_sends prompt_world = None # [None, None]
   \<and> prompt_message (re_compile unicode_14_decimal PROMPT_REGEX) prompt_frame
   \<and> await_prompt (re_compile unicode_14_decimal PROMPT_REGEX) prompt_world =
       Some (Inr (), emit (EvWsRecv prompt_frame)
                       (prompt_world\<lparr>ws_inbound := [prompt_frame, prompt_frame]\<rparr>))
   \<and> await_prompt (re_compile unicode_14_decimal PROMPT_REGEX) noisy_world =
       Some (Inr (),
             noisy_world\<lparr>ws_inbound := [stream_message (str ''stdout'') (str ''later'')],
               trace :=
                 map EvWsRecv
                   [stream_message (str ''stdout'') (str ''hi\<newline>''),
                    stream_message (str ''stderr'') (str ''bash-5.1$ ''),
                    stream_message (str ''stdout'') (str ''bash-5.1$ computing''),
                    stream_message (str ''stdout'') (str ''total 0\<newline>bash-5.1.16$ '')]\<rparr>)
   \<and> (\<exists>fs g. ws_inbound noisy_world = fs @ g # [stream_message (str ''stdout'') (str ''later'')]
         \<and> prompt_message (re_compile unicode_14_decimal PROMPT_REGEX) g
         \<and> (\<forall>h \<in> set fs. \<not> prompt_message (re_compile unicode_14_decimal PROMPT_REGEX) h)
         \<and> map EvWsRecv
              [stream_message (str ''stdout'') (str ''hi\<newline>''),
               stream_message (str ''stderr'') (str ''bash-5.1$ ''),
               stream_message (str ''stdout'') (str ''bash-5.1$ computing''),
               stream_message (str ''stdout'') (str ''total 0\<newline>bash-5.1.16$ '')]
            = trace noisy_world @ map EvWsRecv (fs @ [g]))
   \<and> send_commands (re_compile unicode_14_decimal PROMPT_REGEX)
        (COMMAND_SCRIPT ! 0 # tl COMMAND_SCRIPT) prompt_world =
       send_commands (re_compile unicode_14_decimal PROMPT_REGEX) (tl COMMAND_SCRIPT)
         (prompt_world\<lparr>ws_sends := [None, None], ws_inbound := [prompt_frame, prompt_frame],
            trace := trace prompt_world @ command_round (COMMAND_SCRIPT ! 0) [prompt_frame]\<rparr>)
   \<and> send_commands (re_compile unicode_14_decimal PROMPT_REGEX)
        (COMMAND_SCRIPT ! 0 # tl COMMAND_SCRIPT) prompt_world =
       Some (Inr (),
             prompt_world\<lparr>ws_inbound := [], ws_sends := [],
               trace :=
                 concat (map2 command_round COMMAND_SCRIPT
                           [[prompt_frame], [prompt_frame], [prompt_frame]])\<rparr>)
   \<and> run_script prompt_world =
       Some (Inr (),
             prompt_world\<lparr>ws_inbound := [], ws_sends := [],
               trace :=
                 concat (map2 command_round COMMAND_SCRIPT
                           [[prompt_frame], [prompt_frame], [prompt_frame]])\<rparr>)
   \<and> (\<exists>fss. length fss = length COMMAND_SCRIPT
         \<and> list_all (ends_at_first_prompt
                        (re_compile (unicode_decimal prompt_world) PROMPT_REGEX)) fss
         \<and> concat (map2 command_round COMMAND_SCRIPT
                      [[prompt_frame], [prompt_frame], [prompt_frame]])
            = trace prompt_world @ concat (map2 command_round COMMAND_SCRIPT fss))"
proof -
  let ?P = "re_compile unicode_14_decimal PROMPT_REGEX"
  let ?end = "prompt_world\<lparr>ws_inbound := [], ws_sends := [],
               trace :=
                 concat (map2 command_round COMMAND_SCRIPT
                           [[prompt_frame], [prompt_frame], [prompt_frame]])\<rparr>"
  let ?heard = "noisy_world\<lparr>ws_inbound := [stream_message (str ''stdout'') (str ''later'')],
               trace :=
                 map EvWsRecv
                   [stream_message (str ''stdout'') (str ''hi\<newline>''),
                    stream_message (str ''stderr'') (str ''bash-5.1$ ''),
                    stream_message (str ''stdout'') (str ''bash-5.1$ computing''),
                    stream_message (str ''stdout'') (str ''total 0\<newline>bash-5.1.16$ '')]\<rparr>"
  note table = ascii_digits_unicode_14
  have first: "ws_inbound prompt_world = prompt_frame # [prompt_frame, prompt_frame]"
    and sends: "ws_sends prompt_world = None # [None, None]"
    by (simp_all add: prompt_world_def)
  have is_prompt: "prompt_message ?P prompt_frame"
    by (rule prompt_frame_is_prompt [OF table])
  have script: "run_script prompt_world = Some (Inr (), ?end)"
    by (simp add: driver_unfold prompt_world_def command_round_def)
  have rounds: "send_commands ?P (COMMAND_SCRIPT ! 0 # tl COMMAND_SCRIPT) prompt_world
      = Some (Inr (), ?end)"
    by (simp add: driver_unfold prompt_world_def command_round_def)
  show ?thesis
    using table first sends is_prompt noisy_run script rounds
      prompt_pattern_and_advance
        [OF table, where w = prompt_world and f = prompt_frame
           and rest = "[prompt_frame, prompt_frame]" and p = ?P and sends = "[None, None]"
           and c = "COMMAND_SCRIPT ! 0" and cs = "tl COMMAND_SCRIPT" and w' = ?end
           and outcome = "Inr ()"]
      prompt_pattern_and_advance [OF table, where w = noisy_world and w' = ?heard and p = ?P]
    by simp
qed

lemma await_setup_Nil: "cur \<noteq> JNull \<Longrightarrow> ws_inbound w = [] \<Longrightarrow> await_setup cur w = None"
  by (subst await_setup.simps) (simp add: recv_def)

lemma await_setup_Cons:
  assumes "cur \<noteq> JNull" and "ws_inbound w = f # rest"
  shows "await_setup cur w =
     (case f of
        Raises e \<Rightarrow> Some (Inl e, emit (EvWsRecv f) (w\<lparr>ws_inbound := rest\<rparr>))
      | Malformed \<Rightarrow> Some (Inl JSONDecodeError, emit (EvWsRecv f) (w\<lparr>ws_inbound := rest\<rparr>))
      | Message res \<Rightarrow>
          (case getitem res 0 of
             Inl e \<Rightarrow> Some (Inl e, emit (EvWsRecv f) (w\<lparr>ws_inbound := rest\<rparr>))
           | Inr res0 \<Rightarrow>
               if res0 = JStr (str ''setup'')
               then (case getitem res 1 of
                       Inl e \<Rightarrow> Some (Inl e, emit (EvWsRecv f) (w\<lparr>ws_inbound := rest\<rparr>))
                     | Inr res1 \<Rightarrow> await_setup res1 (emit (EvWsRecv f) (w\<lparr>ws_inbound := rest\<rparr>)))
               else await_setup cur (emit (EvWsRecv f) (w\<lparr>ws_inbound := rest\<rparr>))))"
  by (cases f; hypsubst; subst await_setup.simps; simp add: recv_def Let_def assms)

lemma await_setup_extends:
  assumes "await_setup cur w = Some (outcome, w')" and "ws_inbound w = inbound"
  shows "\<exists>evs. trace w' = trace w @ evs \<and> EvWsClose \<notin> set evs"
  using assms
proof (induction inbound arbitrary: cur w)
  case Nil
  then show ?case
    by (cases "cur = JNull") (simp_all add: await_setup_skipped await_setup_Nil)
next
  case (Cons f rest)
  let ?w1 = "emit (EvWsRecv f) (w\<lparr>ws_inbound := rest\<rparr>)"
  show ?case
  proof (cases "cur = JNull")
    case True
    with Cons.prems show ?thesis
      by (simp add: await_setup_skipped)
  next
    case False
    have here: "trace ?w1 = trace w @ [EvWsRecv f]" and left: "ws_inbound ?w1 = rest"
      by (simp_all add: emit_def)
    from Cons.prems(1) consider "w' = ?w1"
      | cur' where "await_setup cur' ?w1 = Some (outcome, w')"
      by (auto simp: await_setup_Cons [OF False Cons.prems(2)]
            split: frame.splits sum.splits if_splits)
    then show ?thesis
    proof cases
      case 1
      with here show ?thesis by simp
    next
      case 2
      from Cons.IH [OF 2 left] obtain evs where
        "trace w' = trace ?w1 @ evs" and "EvWsClose \<notin> set evs"
        by blast
      with here have "trace w' = trace w @ (EvWsRecv f # evs) \<and> EvWsClose \<notin> set (EvWsRecv f # evs)"
        by simp
      then show ?thesis by blast
    qed
  qed
qed

lemma await_prompt_extends:
  assumes "await_prompt p w = Some (outcome, w')" and "ws_inbound w = inbound"
  shows "\<exists>evs. trace w' = trace w @ evs \<and> EvWsClose \<notin> set evs"
  using assms
proof (induction inbound arbitrary: w)
  case Nil
  then show ?case
    by (simp add: await_prompt_Nil)
next
  case (Cons f rest)
  let ?w1 = "emit (EvWsRecv f) (w\<lparr>ws_inbound := rest\<rparr>)"
  have here: "trace ?w1 = trace w @ [EvWsRecv f]" and left: "ws_inbound ?w1 = rest"
    by (simp_all add: emit_def)
  from Cons.prems(1) consider "w' = ?w1" | "await_prompt p ?w1 = Some (outcome, w')"
    by (auto simp: await_prompt_Cons [OF Cons.prems(2)]
          split: frame.splits sum.splits if_splits)
  then show ?case
  proof cases
    case 1
    with here show ?thesis by simp
  next
    case 2
    from Cons.IH [OF 2 left] obtain evs where
      "trace w' = trace ?w1 @ evs" and "EvWsClose \<notin> set evs"
      by blast
    with here have "trace w' = trace w @ (EvWsRecv f # evs) \<and> EvWsClose \<notin> set (EvWsRecv f # evs)"
      by simp
    then show ?thesis by blast
  qed
qed

lemma send_extends:
  "send msg w = Some (outcome, w') \<Longrightarrow> trace w' = trace w @ [EvWsSend msg]"
  by (auto simp: send_def emit_def Let_def split: list.splits option.splits)

lemma send_commands_extends:
  "send_commands p cs w = Some (outcome, w') \<Longrightarrow>
   \<exists>evs. trace w' = trace w @ evs \<and> EvWsClose \<notin> set evs"
proof (induction cs arbitrary: w)
  case Nil
  then show ?case by simp
next
  case (Cons c cs)
  let ?msg = "JArr [JStr (str ''stdin''), JStr (c @ str ''\<newline>'')]"
  from Cons.prems obtain r1 w1 where sent: "send ?msg w = Some (r1, w1)"
    by (auto split: option.splits)
  then have t1: "trace w1 = trace w @ [EvWsSend ?msg]"
    by (rule send_extends)
  show ?case
  proof (cases r1)
    case (Inl e)
    with Cons.prems sent t1 show ?thesis by auto
  next
    case (Inr u)
    with Cons.prems sent obtain r2 w2 where waited: "await_prompt p w1 = Some (r2, w2)"
      by (auto split: option.splits)
    from await_prompt_extends [OF waited refl] obtain evs2 where
      t2: "trace w2 = trace w1 @ evs2" and c2: "EvWsClose \<notin> set evs2"
      by blast
    show ?thesis
    proof (cases r2)
      case (Inl e)
      with Cons.prems sent waited \<open>r1 = Inr u\<close> have "w' = w2" by simp
      with t1 t2 c2 have "trace w' = trace w @ (EvWsSend ?msg # evs2)
          \<and> EvWsClose \<notin> set (EvWsSend ?msg # evs2)"
        by simp
      then show ?thesis by blast
    next
      case (Inr u2)
      with Cons.prems sent waited \<open>r1 = Inr u\<close>
      have "send_commands p cs w2 = Some (outcome, w')" by simp
      from Cons.IH [OF this] obtain evs3 where
        "trace w' = trace w2 @ evs3" and "EvWsClose \<notin> set evs3"
        by blast
      with t1 t2 c2 have "trace w' = trace w @ (EvWsSend ?msg # evs2 @ evs3)
          \<and> EvWsClose \<notin> set (EvWsSend ?msg # evs2 @ evs3)"
        by simp
      then show ?thesis by blast
    qed
  qed
qed

lemma run_script_extends:
  assumes "run_script w = Some (outcome, w')"
  shows "\<exists>evs. trace w' = trace w @ evs \<and> EvWsClose \<notin> set evs"
proof -
  from assms obtain r1 w1 where waited: "await_setup JNull w = Some (r1, w1)"
    by (auto simp: run_script_def split: option.splits)
  from await_setup_extends [OF waited refl] obtain evs1 where
    t1: "trace w1 = trace w @ evs1" and c1: "EvWsClose \<notin> set evs1"
    by blast
  show ?thesis
  proof (cases r1)
    case (Inl e)
    with assms waited have "w' = w1" by (simp add: run_script_def)
    with t1 c1 show ?thesis by blast
  next
    case (Inr v)
    with assms waited
    have "send_commands (re_compile (unicode_decimal w1) PROMPT_REGEX) COMMAND_SCRIPT w1
        = Some (outcome, w')"
      by (simp add: run_script_def Let_def)
    from send_commands_extends [OF this] obtain evs2 where
      "trace w' = trace w1 @ evs2" and "EvWsClose \<notin> set evs2"
      by blast
    with t1 c1 have "trace w' = trace w @ (evs1 @ evs2) \<and> EvWsClose \<notin> set (evs1 @ evs2)"
      by simp
    then show ?thesis by blast
  qed
qed

text \<open>
  C5. From the point where the channel is open (the \<^verbatim>\<open>try\<close> of line 111), every run of
  the driver that ends, with a value or with any exception, has called \<^verbatim>\<open>ws.close()\<close>
  exactly once, as its last call.
\<close>

theorem command_driver_closes_once:
  assumes "command_driver w = Some (outcome, w')"
  shows "(\<exists>evs. trace w' = trace w @ evs @ [EvWsClose] \<and> EvWsClose \<notin> set evs)
       \<and> count_list (trace w') EvWsClose = Suc (count_list (trace w) EvWsClose)"
proof -
  from assms obtain w1 where body: "run_script w = Some (outcome, w1)" and closed: "w' = close w1"
    by (auto simp: command_driver_def split: option.splits)
  from run_script_extends [OF body] obtain evs where
    t: "trace w1 = trace w @ evs" and c: "EvWsClose \<notin> set evs"
    by blast
  from closed t have whole: "trace w' = trace w @ evs @ [EvWsClose]"
    by (simp add: close_def emit_def)
  from c have "count_list evs EvWsClose = 0"
    by (simp add: count_list_0_iff)
  with whole have "count_list (trace w') EvWsClose = Suc (count_list (trace w) EvWsClose)"
    by simp
  with whole c show ?thesis by blast
qed


theorem command_driver_closes_once_witness:
  "command_driver prompt_world =
       Some (Inr (),
             prompt_world\<lparr>ws_inbound := [], ws_sends := [],
               trace :=
                 [EvWsSend (stdin_message (COMMAND_SCRIPT ! 0)), EvWsRecv prompt_frame,
                  EvWsSend (stdin_message (COMMAND_SCRIPT ! 1)), EvWsRecv prompt_frame,
                  EvWsSend (stdin_message (COMMAND_SCRIPT ! 2)), EvWsRecv prompt_frame,
                  EvWsClose]\<rparr>)
   \<and> count_list
         [EvWsSend (stdin_message (COMMAND_SCRIPT ! 0)), EvWsRecv prompt_frame,
          EvWsSend (stdin_message (COMMAND_SCRIPT ! 1)), EvWsRecv prompt_frame,
          EvWsSend (stdin_message (COMMAND_SCRIPT ! 2)), EvWsRecv prompt_frame,
          EvWsClose] EvWsClose = 1
   \<and> command_driver broken_world =
       Some (Inl WebSocketException,
             broken_world\<lparr>ws_inbound := [prompt_frame], ws_sends := [None],
               trace :=
                 [EvWsSend (stdin_message (COMMAND_SCRIPT ! 0)), EvWsRecv prompt_frame,
                  EvWsSend (stdin_message (COMMAND_SCRIPT ! 1)),
                  EvWsRecv (Raises WebSocketException), EvWsClose]\<rparr>)
   \<and> count_list
         [EvWsSend (stdin_message (COMMAND_SCRIPT ! 0)), EvWsRecv prompt_frame,
          EvWsSend (stdin_message (COMMAND_SCRIPT ! 1)),
          EvWsRecv (Raises WebSocketException), EvWsClose] EvWsClose = 1"
proof -
  have finished: "command_driver prompt_world =
       Some (Inr (),
             prompt_world\<lparr>ws_inbound := [], ws_sends := [],
               trace :=
                 [EvWsSend (stdin_message (COMMAND_SCRIPT ! 0)), EvWsRecv prompt_frame,
                  EvWsSend (stdin_message (COMMAND_SCRIPT ! 1)), EvWsRecv prompt_frame,
                  EvWsSend (stdin_message (COMMAND_SCRIPT ! 2)), EvWsRecv prompt_frame,
                  EvWsClose]\<rparr>)"
    by (simp add: driver_unfold prompt_world_def)
  have failed: "command_driver broken_world =
       Some (Inl WebSocketException,
             broken_world\<lparr>ws_inbound := [prompt_frame], ws_sends := [None],
               trace :=
                 [EvWsSend (stdin_message (COMMAND_SCRIPT ! 0)), EvWsRecv prompt_frame,
                  EvWsSend (stdin_message (COMMAND_SCRIPT ! 1)),
                  EvWsRecv (Raises WebSocketException), EvWsClose]\<rparr>)"
    by (simp add: driver_unfold broken_world_def)
  have fresh: "trace prompt_world = []" "trace broken_world = []"
    by (simp_all add: prompt_world_def broken_world_def idle_world_def)
  show ?thesis
    using finished failed fresh
      command_driver_closes_once [OF finished]
      command_driver_closes_once [OF failed]
    by simp
qed

end
